theory Spec2Isabelle
  imports Main "HOL-Library.Word" "HOL-Library.AList"
begin

section \<open>Errors and outcomes\<close>

text \<open>
  The binder of \<^verbatim>\<open>bind.go\<close> returns Go \<^verbatim>\<open>error\<close> values and works on its target in
  place through \<^verbatim>\<open>reflect\<close>. Every function of the model therefore returns the
  updated value together with an outcome: \<open>Ok\<close> for a \<^verbatim>\<open>nil\<close> error, \<open>Err e\<close> for a
  returned error, \<open>Panic p\<close> for a run-time panic.
\<close>

datatype num_err = ErrSyntax | ErrRange | ErrBitSize nat

datatype error =
    ErrorString string
  | NumError string string num_err
  | XMLUnsupportedTypeError string
  | XMLSyntaxError string int
  | OtherError string
  | HTTPError "error option" int string

datatype panic = IndexOutOfRange | NilMapAssign | ReflectPanic

datatype outcome = Ok | Err error | Panic panic

fun of_error :: "error option \<Rightarrow> outcome" where
  "of_error None = Ok"
| "of_error (Some e) = Err e"

section \<open>The parsers of strconv used by the coercer\<close>

text \<open>
  \<^verbatim>\<open>strconv.ParseUint(s, 10, bitSize)\<close>, \<^verbatim>\<open>strconv.ParseInt(s, 10, bitSize)\<close> and
  \<^verbatim>\<open>strconv.ParseBool\<close> of the Go standard library, at the base the package passes
  (always 10). They return a value and an error, as in Go. \<open>IntSize\<close> is the width
  of \<^verbatim>\<open>int\<close> on a 64-bit platform. The \<^verbatim>\<open>uint64\<close> accumulator of the digit loop wraps
  modulo \<open>2 ^ 64\<close>, written out.
\<close>

definition IntSize :: nat where
  "IntSize = 64"

definition maxUint64 :: nat where
  "maxUint64 = 2 ^ 64 - 1"

definition isDigit :: "char \<Rightarrow> bool" where
  "isDigit c = (48 \<le> (of_char c :: nat) \<and> (of_char c :: nat) \<le> 57)"

definition digitVal :: "char \<Rightarrow> nat" where
  "digitVal c = (of_char c :: nat) - 48"

fun ParseUint_digits :: "nat \<Rightarrow> string \<Rightarrow> nat \<Rightarrow> nat \<times> num_err option" where
  "ParseUint_digits maxVal [] n = (n, None)"
| "ParseUint_digits maxVal (c # cs) n =
     (if \<not> isDigit c then (0, Some ErrSyntax)
      else if n \<ge> maxUint64 div 10 + 1 then (maxVal, Some ErrRange)
      else
        let m = (n * 10) mod 2 ^ 64;
            n1 = (m + digitVal c) mod 2 ^ 64
        in if n1 < m \<or> n1 > maxVal then (maxVal, Some ErrRange)
           else ParseUint_digits maxVal cs n1)"

definition ParseUint :: "string \<Rightarrow> nat \<Rightarrow> nat \<times> error option" where
  "ParseUint s bitSize =
     (if s = [] then (0, Some (NumError ''ParseUint'' s ErrSyntax))
      else if bitSize > 64 then (0, Some (NumError ''ParseUint'' s (ErrBitSize bitSize)))
      else
        let bits = (if bitSize = 0 then IntSize else bitSize);
            maxVal = 2 ^ bits - 1
        in case ParseUint_digits maxVal s 0 of
             (n, None) \<Rightarrow> (n, None)
           | (n, Some e) \<Rightarrow> (n, Some (NumError ''ParseUint'' s e)))"

definition ParseInt :: "string \<Rightarrow> nat \<Rightarrow> int \<times> error option" where
  "ParseInt s0 bitSize =
     (if s0 = [] then (0, Some (NumError ''ParseInt'' s0 ErrSyntax))
      else
        let neg = (hd s0 = CHR ''-'');
            s = (if hd s0 = CHR ''+'' \<or> hd s0 = CHR ''-'' then tl s0 else s0)
        in case ParseUint s bitSize of
             (un, Some (NumError f n ErrSyntax)) \<Rightarrow> (0, Some (NumError ''ParseInt'' s0 ErrSyntax))
           | (un, Some (NumError f n (ErrBitSize b))) \<Rightarrow> (0, Some (NumError ''ParseInt'' s0 (ErrBitSize b)))
           | (un, r) \<Rightarrow>
               let bits = (if bitSize = 0 then IntSize else bitSize);
                   cutoff = (2::nat) ^ (bits - 1)
               in if \<not> neg \<and> un \<ge> cutoff then (int cutoff - 1, Some (NumError ''ParseInt'' s0 ErrRange))
                  else if neg \<and> un > cutoff then (- int cutoff, Some (NumError ''ParseInt'' s0 ErrRange))
                  else (if neg then - int un else int un, None))"

definition ParseBool :: "string \<Rightarrow> bool \<times> error option" where
  "ParseBool str =
     (if str \<in> set [''1'', ''t'', ''T'', ''true'', ''TRUE'', ''True''] then (True, None)
      else if str \<in> set [''0'', ''f'', ''F'', ''false'', ''FALSE'', ''False''] then (False, None)
      else (False, Some (NumError ''ParseBool'' str ErrSyntax)))"

section \<open>Values, types and the custom-decode capability\<close>

text \<open>
  A \<^verbatim>\<open>reflect.Value\<close> is modelled by a type descriptor and a value. Pointers own
  their pointee (\<open>VPtr None\<close> is the nil pointer); a float is its IEEE-754
  \<^verbatim>\<open>float64\<close> bit pattern, so that \<open>0\<close> is \<^verbatim>\<open>+0.0\<close>; a map holds string keys.
  \<^verbatim>\<open>reflect.Kind\<close> is split in two: the kinds without inner structure for the binder
  (\<open>basic\<close>) and the four kinds that the binder takes apart.
\<close>

datatype basic =
    Invalid | KBool
  | KInt | KInt8 | KInt16 | KInt32 | KInt64
  | KUint | KUint8 | KUint16 | KUint32 | KUint64 | KUintptr
  | KFloat32 | KFloat64 | KComplex64 | KComplex128
  | KArray | KChan | KFunc | KInterface | KString | KUnsafePointer

datatype kind = Basic basic | KMap | KPtr | KSlice | KStruct

datatype gval =
    VBool bool
  | VInt int
  | VUint nat
  | VFloat "64 word"
  | VString string
  | VPtr "gval option"
  | VSlice "gval list"
  | VStruct "gval list"
  | VMap "(string \<times> gval) list option"
  | VOpaque

text \<open>
  The method set of \<^verbatim>\<open>*T\<close>, as far as the binder asks for it: \<^verbatim>\<open>BindUnmarshaler\<close>
  (\<^verbatim>\<open>UnmarshalParam\<close>) is asked for first, \<^verbatim>\<open>encoding.TextUnmarshaler\<close>
  (\<^verbatim>\<open>UnmarshalText\<close>) second, so a type with both counts as \<open>BindUnmarshaler\<close>. The
  method is user code: it receives the string and the current value and leaves the
  new value and its error.
\<close>

datatype cap =
    NoCap
  | BindUnmarshaler "string \<Rightarrow> gval \<Rightarrow> gval \<times> error option"
  | TextUnmarshaler "string \<Rightarrow> gval \<Rightarrow> gval \<times> error option"

text \<open>
  \<open>TBasic k c\<close> is a type of a kind without inner structure for the binder (the
  scalars, and arrays, channels, functions, interfaces, complex numbers).
  \<open>TMap ok c\<close> is a map type; \<open>ok\<close> says that a \<^verbatim>\<open>string\<close> is assignable to its key
  type and to its element type (\<^verbatim>\<open>map[string]string\<close>, \<^verbatim>\<open>map[string]any\<close>).
  A struct field carries its name, type, whether it is embedded, whether it is
  exported, and its tag as the list of its key/value pairs.
\<close>

datatype gtype =
    TBasic basic cap
  | TPtr gtype
  | TSlice gtype cap
  | TStruct "sfield list" cap
  | TMap bool cap
and sfield =
    SField (fname: string) (ftype: gtype) (anonymous: bool) (exported: bool)
           (ftag: "(string \<times> string) list")

fun Kind :: "gtype \<Rightarrow> kind" where
  "Kind (TBasic k c) = Basic k"
| "Kind (TPtr t) = KPtr"
| "Kind (TSlice t c) = KSlice"
| "Kind (TStruct fs c) = KStruct"
| "Kind (TMap ok c) = KMap"

text \<open>A pointer type has no methods of its own, so \<^verbatim>\<open>**T\<close> never has the capability.\<close>

fun capOf :: "gtype \<Rightarrow> cap" where
  "capOf (TBasic k c) = c"
| "capOf (TPtr t) = NoCap"
| "capOf (TSlice t c) = c"
| "capOf (TStruct fs c) = c"
| "capOf (TMap ok c) = c"

definition isBindUnmarshaler :: "gtype \<Rightarrow> bool" where
  "isBindUnmarshaler t = (case capOf t of BindUnmarshaler f \<Rightarrow> True | _ \<Rightarrow> False)"

definition TagGet :: "(string \<times> string) list \<Rightarrow> string \<Rightarrow> string" where
  "TagGet tg key = (case map_of tg key of Some v \<Rightarrow> v | None \<Rightarrow> [])"

text \<open>The zero value of a type, what \<^verbatim>\<open>reflect.New\<close> and \<^verbatim>\<open>reflect.MakeSlice\<close> fill in.\<close>

definition isIntKind :: "basic \<Rightarrow> bool" where
  "isIntKind k = (k \<in> set [KInt, KInt8, KInt16, KInt32, KInt64])"

definition isUintKind :: "basic \<Rightarrow> bool" where
  "isUintKind k = (k \<in> set [KUint, KUint8, KUint16, KUint32, KUint64, KUintptr])"

definition isFloatKind :: "basic \<Rightarrow> bool" where
  "isFloatKind k = (k \<in> set [KFloat32, KFloat64])"

definition zeroBasic :: "basic \<Rightarrow> gval" where
  "zeroBasic k =
     (if k = KBool then VBool False
      else if isIntKind k then VInt 0
      else if isUintKind k then VUint 0
      else if isFloatKind k then VFloat 0
      else if k = KString then VString []
      else VOpaque)"

primrec zero :: "gtype \<Rightarrow> gval" and zeroField :: "sfield \<Rightarrow> gval" where
  "zero (TBasic k c) = zeroBasic k"
| "zero (TPtr t) = VPtr None"
| "zero (TSlice t c) = VSlice []"
| "zero (TStruct fs c) = VStruct (map zeroField fs)"
| "zero (TMap ok c) = VMap None"
| "zeroField (SField n t a e tg) = zero t"

text \<open>
  The library functions whose tables the model does not spell out:
  \<^verbatim>\<open>strconv.ParseFloat\<close> (IEEE rounding), \<^verbatim>\<open>strings.EqualFold\<close> (Unicode case
  folding), \<^verbatim>\<open>strconv.Quote\<close> (used in the text of a \<^verbatim>\<open>NumError\<close>) and the JSON and
  XML decoders of the request body.
\<close>

record golib =
  ParseFloat :: "string \<Rightarrow> nat \<Rightarrow> 64 word \<times> error option"
  EqualFold :: "string \<Rightarrow> string \<Rightarrow> bool"
  Quote :: "string \<Rightarrow> string"
  DecodeJSON :: "string \<Rightarrow> (gtype \<times> gval) option \<Rightarrow> (gtype \<times> gval) option \<times> error option"
  DecodeXML :: "string \<Rightarrow> (gtype \<times> gval) option \<Rightarrow> (gtype \<times> gval) option \<times> error option"

section \<open>The coercer\<close>

text \<open>
  \<^verbatim>\<open>reflect.Value.SetInt\<close> and its siblings panic on a value of another kind and
  convert to the width of the field.
\<close>

definition intBits :: "basic \<Rightarrow> nat" where
  "intBits k =
     (if k = KInt8 \<or> k = KUint8 then 8
      else if k = KInt16 \<or> k = KUint16 then 16
      else if k = KInt32 \<or> k = KUint32 then 32
      else if k = KInt64 \<or> k = KUint64 then 64
      else IntSize)"

definition wrapSigned :: "nat \<Rightarrow> int \<Rightarrow> int" where
  "wrapSigned b x = (x + 2 ^ (b - 1)) mod 2 ^ b - 2 ^ (b - 1)"

definition SetInt :: "int \<Rightarrow> gtype \<Rightarrow> gval \<Rightarrow> gval \<times> outcome" where
  "SetInt x t v =
     (case Kind t of
        Basic k \<Rightarrow>
          if isIntKind k then (VInt (wrapSigned (intBits k) x), Ok)
          else (v, Panic ReflectPanic)
      | _ \<Rightarrow> (v, Panic ReflectPanic))"

definition SetUint :: "nat \<Rightarrow> gtype \<Rightarrow> gval \<Rightarrow> gval \<times> outcome" where
  "SetUint x t v =
     (case Kind t of
        Basic k \<Rightarrow>
          if isUintKind k then (VUint (x mod 2 ^ intBits k), Ok)
          else (v, Panic ReflectPanic)
      | _ \<Rightarrow> (v, Panic ReflectPanic))"

definition SetBool :: "bool \<Rightarrow> gtype \<Rightarrow> gval \<Rightarrow> gval \<times> outcome" where
  "SetBool x t v = (if Kind t = Basic KBool then (VBool x, Ok) else (v, Panic ReflectPanic))"

text \<open>
  \<^verbatim>\<open>SetFloat\<close> stores \<^verbatim>\<open>float32(x)\<close> in a \<^verbatim>\<open>float32\<close> field; \<^verbatim>\<open>ParseFloat(s, 32)\<close>
  returns a value that this conversion does not change, so the bits are kept.
\<close>

definition SetFloat :: "64 word \<Rightarrow> gtype \<Rightarrow> gval \<Rightarrow> gval \<times> outcome" where
  "SetFloat x t v =
     (if Kind t = Basic KFloat32 \<or> Kind t = Basic KFloat64 then (VFloat x, Ok)
      else (v, Panic ReflectPanic))"

definition SetString :: "string \<Rightarrow> gtype \<Rightarrow> gval \<Rightarrow> gval \<times> outcome" where
  "SetString x t v = (if Kind t = Basic KString then (VString x, Ok) else (v, Panic ReflectPanic))"

definition setIntField :: "string \<Rightarrow> nat \<Rightarrow> gtype \<Rightarrow> gval \<Rightarrow> gval \<times> outcome" where
  "setIntField value bitSize t field =
     (let value = (if value = [] then ''0'' else value)
      in case ParseInt value bitSize of
           (intVal, None) \<Rightarrow> SetInt intVal t field
         | (intVal, Some err) \<Rightarrow> (field, Err err))"

definition setUintField :: "string \<Rightarrow> nat \<Rightarrow> gtype \<Rightarrow> gval \<Rightarrow> gval \<times> outcome" where
  "setUintField value bitSize t field =
     (let value = (if value = [] then ''0'' else value)
      in case ParseUint value bitSize of
           (uintVal, None) \<Rightarrow> SetUint uintVal t field
         | (uintVal, Some err) \<Rightarrow> (field, Err err))"

definition setBoolField :: "string \<Rightarrow> gtype \<Rightarrow> gval \<Rightarrow> gval \<times> outcome" where
  "setBoolField value t field =
     (let value = (if value = [] then ''false'' else value)
      in case ParseBool value of
           (boolVal, None) \<Rightarrow> SetBool boolVal t field
         | (boolVal, Some err) \<Rightarrow> (field, Err err))"

definition setFloatField :: "golib \<Rightarrow> string \<Rightarrow> nat \<Rightarrow> gtype \<Rightarrow> gval \<Rightarrow> gval \<times> outcome" where
  "setFloatField lib value bitSize t field =
     (let value = (if value = [] then ''0.0'' else value)
      in case ParseFloat lib value bitSize of
           (floatVal, None) \<Rightarrow> SetFloat floatVal t field
         | (floatVal, Some err) \<Rightarrow> (field, Err err))"

text \<open>
  \<^verbatim>\<open>unmarshalFieldNonPtr\<close> asks whether the address of the field has the capability
  and, if so, runs it. The result is the flag, the field after the call and the
  error of the method.
\<close>

definition unmarshalFieldNonPtr :: "string \<Rightarrow> gtype \<Rightarrow> gval \<Rightarrow> bool \<times> gval \<times> outcome" where
  "unmarshalFieldNonPtr value t field =
     (case capOf t of
        BindUnmarshaler um \<Rightarrow> (case um value field of (field', e) \<Rightarrow> (True, field', of_error e))
      | TextUnmarshaler um \<Rightarrow> (case um value field of (field', e) \<Rightarrow> (True, field', of_error e))
      | NoCap \<Rightarrow> (False, field, Ok))"

text \<open>
  \<^verbatim>\<open>unmarshalFieldPtr\<close> allocates the pointee of a nil pointer, then asks the pointee.
  On a value that is not a pointer, \<^verbatim>\<open>IsNil\<close>, \<^verbatim>\<open>Set\<close> or \<^verbatim>\<open>Elem\<close> of \<^verbatim>\<open>reflect\<close> panics.
\<close>

definition unmarshalFieldPtr :: "string \<Rightarrow> gtype \<Rightarrow> gval \<Rightarrow> bool \<times> gval \<times> outcome" where
  "unmarshalFieldPtr value t field =
     (case (t, field) of
        (TPtr et, VPtr p) \<Rightarrow>
          (let elem = (case p of None \<Rightarrow> zero et | Some x \<Rightarrow> x)
           in case unmarshalFieldNonPtr value et elem of
                (ok, elem', r) \<Rightarrow> (ok, VPtr (Some elem'), r))
      | _ \<Rightarrow> (False, field, Panic ReflectPanic))"

definition unmarshalField :: "kind \<Rightarrow> string \<Rightarrow> gtype \<Rightarrow> gval \<Rightarrow> bool \<times> gval \<times> outcome" where
  "unmarshalField valueKind val t field =
     (if valueKind = KPtr then unmarshalFieldPtr val t field
      else unmarshalFieldNonPtr val t field)"

text \<open>
  The scalar cases of the switch of \<^verbatim>\<open>setWithProperType\<close>; the pointer case is the
  recursion below. \<open>switchBitSize\<close> names the bit size that the switch passes to the
  parser for each integer kind.
\<close>

definition switchBitSize :: "basic \<Rightarrow> nat" where
  "switchBitSize k =
     (if k = KInt8 \<or> k = KUint8 then 8
      else if k = KInt16 \<or> k = KUint16 then 16
      else if k = KInt32 \<or> k = KUint32 then 32
      else if k = KInt64 \<or> k = KUint64 then 64
      else 0)"

definition setScalar :: "golib \<Rightarrow> kind \<Rightarrow> string \<Rightarrow> gtype \<Rightarrow> gval \<Rightarrow> gval \<times> outcome" where
  "setScalar lib valueKind val t field =
     (if valueKind = Basic KInt then setIntField val 0 t field
      else if valueKind = Basic KInt8 then setIntField val 8 t field
      else if valueKind = Basic KInt16 then setIntField val 16 t field
      else if valueKind = Basic KInt32 then setIntField val 32 t field
      else if valueKind = Basic KInt64 then setIntField val 64 t field
      else if valueKind = Basic KUint then setUintField val 0 t field
      else if valueKind = Basic KUint8 then setUintField val 8 t field
      else if valueKind = Basic KUint16 then setUintField val 16 t field
      else if valueKind = Basic KUint32 then setUintField val 32 t field
      else if valueKind = Basic KUint64 then setUintField val 64 t field
      else if valueKind = Basic KBool then setBoolField val t field
      else if valueKind = Basic KFloat32 then setFloatField lib val 32 t field
      else if valueKind = Basic KFloat64 then setFloatField lib val 64 t field
      else if valueKind = Basic KString then SetString val t field
      else (field, Err (ErrorString ''unknown type'')))"

fun setWithProperType :: "golib \<Rightarrow> kind \<Rightarrow> string \<Rightarrow> gtype \<Rightarrow> gval \<Rightarrow> gval \<times> outcome" where
  "setWithProperType lib valueKind val t field =
     (case unmarshalField valueKind val t field of
        (ok, field1, r) \<Rightarrow>
          if r \<noteq> Ok \<or> ok then (field1, r)
          else if valueKind = KPtr then
            (case t of
               TPtr et \<Rightarrow>
                 (case field1 of
                    VPtr (Some elem) \<Rightarrow>
                      (case setWithProperType lib (Kind et) val et elem of
                         (elem', r') \<Rightarrow> (VPtr (Some elem'), r'))
                  | _ \<Rightarrow> (field1, Panic ReflectPanic))
             | _ \<Rightarrow> (field1, Panic ReflectPanic))
          else setScalar lib valueKind val t field1)"

declare setWithProperType.simps [simp del]

section \<open>The field walker\<close>

text \<open>
  \<^verbatim>\<open>url.Values\<close> is a Go map from a key to a list of strings. It is an association
  list here, with distinct keys; the order of the list is the order in which
  \<^verbatim>\<open>range data\<close> visits the entries, which Go leaves open.
\<close>

type_synonym Values = "(string \<times> string list) list"

definition index0 :: "string list \<Rightarrow> string option" where
  "index0 xs = (case xs of [] \<Rightarrow> None | x # _ \<Rightarrow> Some x)"

text \<open>The loop of the map target: \<^verbatim>\<open>val.SetMapIndex(k, v[0])\<close> for every entry.\<close>

definition SetMapIndex :: "bool \<Rightarrow> string \<Rightarrow> string \<Rightarrow> gval \<Rightarrow> gval \<times> outcome" where
  "SetMapIndex ok k x val =
     (case val of
        VMap m \<Rightarrow>
          if \<not> ok then (val, Panic ReflectPanic)
          else (case m of
                  None \<Rightarrow> (val, Panic NilMapAssign)
                | Some kvs \<Rightarrow> (VMap (Some (AList.update k (VString x) kvs)), Ok))
      | _ \<Rightarrow> (val, Panic ReflectPanic))"

fun copyToMap :: "bool \<Rightarrow> Values \<Rightarrow> gval \<Rightarrow> gval \<times> outcome" where
  "copyToMap ok [] val = (val, Ok)"
| "copyToMap ok ((k, v) # rest) val =
     (case index0 v of
        None \<Rightarrow> (val, Panic IndexOutOfRange)
      | Some v0 \<Rightarrow>
          (case SetMapIndex ok k v0 val of
             (val', Ok) \<Rightarrow> copyToMap ok rest val'
           | (val', r) \<Rightarrow> (val', r)))"

text \<open>
  The lookup of a tag name: the exact key first, then the first key of the scan that
  \<^verbatim>\<open>strings.EqualFold\<close> accepts.
\<close>

fun foldScan :: "golib \<Rightarrow> string \<Rightarrow> Values \<Rightarrow> string list option" where
  "foldScan lib inputFieldName [] = None"
| "foldScan lib inputFieldName ((k, v) # rest) =
     (if EqualFold lib k inputFieldName then Some v else foldScan lib inputFieldName rest)"

definition lookupInput :: "golib \<Rightarrow> Values \<Rightarrow> string \<Rightarrow> string list option" where
  "lookupInput lib data inputFieldName =
     (case map_of data inputFieldName of
        Some inputValue \<Rightarrow> Some inputValue
      | None \<Rightarrow> foldScan lib inputFieldName data)"

text \<open>
  The loop over the elements of a slice field: each element starts as the zero value
  of the element type (\<^verbatim>\<open>reflect.MakeSlice\<close>) and the first error ends the loop.
\<close>

fun setElems :: "golib \<Rightarrow> kind \<Rightarrow> gtype \<Rightarrow> string list \<Rightarrow> gval list \<times> outcome" where
  "setElems lib sliceOf et [] = ([], Ok)"
| "setElems lib sliceOf et (x # xs) =
     (case setWithProperType lib sliceOf x et (zero et) of
        (e, Ok) \<Rightarrow> (case setElems lib sliceOf et xs of (es, r) \<Rightarrow> (e # es, r))
      | (e, r) \<Rightarrow> ([e], r))"

text \<open>
  The part of the loop body after the lookup. \<open>typeKind\<close> is
  \<^verbatim>\<open>typeField.Type.Kind()\<close>; \<open>isElem\<close> says that \<open>structField\<close> is the pointee of an
  embedded pointer, in which case \<^verbatim>\<open>val.Field(i)\<close> is the pointer, which
  \<^verbatim>\<open>Set(slice)\<close> refuses.
\<close>

definition bindTagged ::
  "golib \<Rightarrow> kind \<Rightarrow> bool \<Rightarrow> string list \<Rightarrow> gtype \<Rightarrow> gval \<Rightarrow> gval \<times> outcome" where
  "bindTagged lib typeKind isElem inputValue t structField =
     (case index0 inputValue of
        None \<Rightarrow> (structField, Panic IndexOutOfRange)
      | Some v0 \<Rightarrow>
          (case unmarshalField typeKind v0 t structField of
             (ok, field1, r) \<Rightarrow>
               if r \<noteq> Ok \<or> ok then (field1, r)
               else if Kind t = KSlice \<and> length inputValue > 0 then
                 (case t of
                    TSlice et c \<Rightarrow>
                      (case setElems lib (Kind et) et inputValue of
                         (es, Ok) \<Rightarrow>
                           if isElem then (field1, Panic ReflectPanic) else (VSlice es, Ok)
                       | (es, r) \<Rightarrow> (field1, r))
                  | _ \<Rightarrow> (field1, Panic ReflectPanic))
               else
                 (case index0 inputValue of
                    None \<Rightarrow> (field1, Panic IndexOutOfRange)
                  | Some v0' \<Rightarrow> setWithProperType lib typeKind v0' t field1)))"

text \<open>
  \<open>fieldElem\<close> is \<open>structField\<close> after the first lines of the loop body: the field,
  or the pointee of an embedded pointer; \<open>None\<close> is the invalid value that \<^verbatim>\<open>Elem\<close>
  gives for a nil pointer. \<open>fieldStore\<close> puts the new \<open>structField\<close> back.
\<close>

definition isElemOf :: "sfield \<Rightarrow> bool" where
  "isElemOf f = (anonymous f \<and> Kind (ftype f) = KPtr)"

definition fieldElem :: "sfield \<Rightarrow> gval \<Rightarrow> (gtype \<times> gval) option" where
  "fieldElem f fv =
     (if isElemOf f then
        (case (ftype f, fv) of
           (TPtr et, VPtr (Some x)) \<Rightarrow> Some (et, x)
         | _ \<Rightarrow> None)
      else Some (ftype f, fv))"

definition fieldStore :: "sfield \<Rightarrow> gval \<Rightarrow> gval" where
  "fieldStore f x = (if isElemOf f then VPtr (Some x) else x)"

text \<open>
  \<^verbatim>\<open>bindData\<close>, the loop over the fields of a struct and the body of that loop. The
  destination is the content of the \<^verbatim>\<open>any\<close>: \<open>None\<close> is \<^verbatim>\<open>nil\<close>, and
  \<open>Some (TPtr t, VPtr (Some v))\<close> is a pointer to a variable of type \<open>t\<close> that holds
  \<open>v\<close>. On a nil pointer of a type and on a destination that is not a pointer,
  \<^verbatim>\<open>reflect\<close> panics as soon as the value is used. The result is the destination after
  the call: fields bound before an error keep their new values.
\<close>

function (sequential)
  bindData :: "golib \<Rightarrow> (gtype \<times> gval) option \<Rightarrow> Values \<Rightarrow> string
                 \<Rightarrow> (gtype \<times> gval) option \<times> outcome"
  and bindFields :: "golib \<Rightarrow> Values \<Rightarrow> string \<Rightarrow> sfield list \<Rightarrow> gval list
                 \<Rightarrow> gval list \<times> outcome"
  and bindField :: "golib \<Rightarrow> Values \<Rightarrow> string \<Rightarrow> sfield \<Rightarrow> gval \<Rightarrow> gval \<times> outcome"
where
  "bindData lib None data tag = (None, Ok)"
| "bindData lib (Some (TPtr typ, VPtr p)) data tag =
     (if data = [] then (Some (TPtr typ, VPtr p), Ok)
      else if Kind typ = KMap then
        (case typ of
           TMap ok c \<Rightarrow>
             (case copyToMap ok data (case p of None \<Rightarrow> VOpaque | Some val \<Rightarrow> val) of
                (val', r) \<Rightarrow>
                  (Some (TPtr typ, VPtr (case p of None \<Rightarrow> None | Some val \<Rightarrow> Some val')), r))
         | _ \<Rightarrow> (Some (TPtr typ, VPtr p), Panic ReflectPanic))
      else if Kind typ \<noteq> KStruct then
        (if tag = ''query'' then (Some (TPtr typ, VPtr p), Ok)
         else (Some (TPtr typ, VPtr p), Err (ErrorString ''binding element must be a struct'')))
      else
        (case typ of
           TStruct fs c \<Rightarrow>
             (case p of
                Some (VStruct vs) \<Rightarrow>
                  (case bindFields lib data tag fs vs of
                     (vs', r) \<Rightarrow> (Some (TPtr typ, VPtr (Some (VStruct vs'))), r))
              | _ \<Rightarrow>
                  if fs = [] then (Some (TPtr typ, VPtr p), Ok)
                  else (Some (TPtr typ, VPtr p), Panic ReflectPanic))
         | _ \<Rightarrow> (Some (TPtr typ, VPtr p), Panic ReflectPanic)))"
| "bindData lib (Some (dt, dv)) data tag =
     (if data = [] then (Some (dt, dv), Ok) else (Some (dt, dv), Panic ReflectPanic))"
| "bindFields lib data tag [] vs = (vs, Ok)"
| "bindFields lib data tag (f # fs) [] = ([], Panic ReflectPanic)"
| "bindFields lib data tag (f # fs) (fv # vs) =
     (case bindField lib data tag f fv of
        (fv', Ok) \<Rightarrow> (case bindFields lib data tag fs vs of (vs', r) \<Rightarrow> (fv' # vs', r))
      | (fv', r) \<Rightarrow> (fv' # vs, r))"
| "bindField lib data tag f fv =
     (case fieldElem f fv of
        None \<Rightarrow> (fv, Ok)
      | Some (t, structField) \<Rightarrow>
          if \<not> exported f then (fv, Ok)
          else
            let inputFieldName = TagGet (ftag f) tag
            in if anonymous f \<and> Kind t = KStruct \<and> inputFieldName \<noteq> [] then
                 (fv, Err (ErrorString
                    ''query/form tags are not allowed with anonymous struct field''))
               else if inputFieldName = [] then
                 (if \<not> isBindUnmarshaler t \<and> Kind t = KStruct then
                    (case bindData lib (Some (TPtr t, VPtr (Some structField))) data tag of
                       (Some (dt, VPtr (Some structField')), r) \<Rightarrow> (fieldStore f structField', r)
                     | (d, r) \<Rightarrow> (fv, r))
                  else (fv, Ok))
               else
                 (case lookupInput lib data inputFieldName of
                    None \<Rightarrow> (fv, Ok)
                  | Some inputValue \<Rightarrow>
                      (case bindTagged lib (Kind (ftype f)) (isElemOf f) inputValue t structField of
                         (structField', r) \<Rightarrow> (fieldStore f structField', r))))"
  by pat_completeness auto
termination
proof (relation "measure (\<lambda>a. case a of
          Inl (lib, d, data, tag) \<Rightarrow> (case d of None \<Rightarrow> 0 | Some (dt, dv) \<Rightarrow> 3 * size dt)
        | Inr (Inl (lib, data, tag, fs, vs)) \<Rightarrow> 3 * size_list size fs + 2
        | Inr (Inr (lib, data, tag, f, fv)) \<Rightarrow> 3 * size f + 1)", goal_cases)
  case 1
  show ?case by simp
next
  case 2
  then show ?case by simp
next
  case 3
  then show ?case by simp
next
  case 4
  then show ?case by simp
next
  case (5 lib data tag f fv x2 x y)
  then have "fieldElem f fv = Some (x, y)"
    by simp
  then have "size x \<le> size (ftype f)"
    by (auto simp: fieldElem_def split: if_splits gtype.splits gval.splits option.splits)
  moreover have "size (ftype f) < size f"
    by (cases f) simp
  ultimately show ?case by simp
qed

declare bindField.simps [simp del]

text \<open>
  The end of the loop body for a field whose input values were found: the lines from
  the first custom-decode attempt to the scalar coercion, and the store into the field.
\<close>

definition bindInput ::
  "golib \<Rightarrow> sfield \<Rightarrow> string list \<Rightarrow> gtype \<Rightarrow> gval \<Rightarrow> gval \<times> outcome" where
  "bindInput lib f inputValue t structField =
     (case bindTagged lib (Kind (ftype f)) (isElemOf f) inputValue t structField of
        (structField', r) \<Rightarrow> (fieldStore f structField', r))"

text \<open>
  The field types that hold nothing but what the coercer writes: a scalar without
  custom decoder, or a chain of pointers to one.
\<close>

fun plainType :: "gtype \<Rightarrow> bool" where
  "plainType (TBasic k c) = (case c of NoCap \<Rightarrow> True | _ \<Rightarrow> False)"
| "plainType (TPtr t) = plainType t"
| "plainType (TSlice t c) = False"
| "plainType (TStruct fs c) = False"
| "plainType (TMap ok c) = False"

text \<open>
  The field types for which the walker calls no custom decoder on a tagged field:
  neither the type nor, for a pointer, the type at the end of the chain of pointers
  implements \<^verbatim>\<open>BindUnmarshaler\<close> or \<^verbatim>\<open>encoding.TextUnmarshaler\<close>. The elements of a
  slice may.
\<close>

fun noDecoder :: "gtype \<Rightarrow> bool" where
  "noDecoder (TBasic k c) = (case c of NoCap \<Rightarrow> True | _ \<Rightarrow> False)"
| "noDecoder (TPtr t) = noDecoder t"
| "noDecoder (TSlice t c) = (case c of NoCap \<Rightarrow> True | _ \<Rightarrow> False)"
| "noDecoder (TStruct fs c) = (case c of NoCap \<Rightarrow> True | _ \<Rightarrow> False)"
| "noDecoder (TMap ok c) = (case c of NoCap \<Rightarrow> True | _ \<Rightarrow> False)"

text \<open>
  The struct reached from a struct by a path of field indices, through fields that the
  walker recurses into: fields that can be set, have no tag for the source kind, are
  a struct or an embedded pointer to a struct that is not nil, and do not implement
  \<^verbatim>\<open>BindUnmarshaler\<close>. The empty path is the struct itself.
\<close>

fun structAt :: "string \<Rightarrow> nat list \<Rightarrow> sfield list \<Rightarrow> gval list \<Rightarrow> (sfield list \<times> gval list) option" where
  "structAt tag [] fs ws = Some (fs, ws)"
| "structAt tag (i # path) fs ws =
     (if i < length fs \<and> i < length ws then
        (case fieldElem (fs ! i) (ws ! i) of
           Some (TStruct fs' c, VStruct ws') \<Rightarrow>
             if exported (fs ! i) \<and> TagGet (ftag (fs ! i)) tag = [] \<and>
                \<not> isBindUnmarshaler (TStruct fs' c)
             then structAt tag path fs' ws'
             else None
         | _ \<Rightarrow> None)
      else None)"

section \<open>The source dispatcher\<close>

text \<open>
  What the binder reads of a request: the method, the content length, the value of
  the \<^verbatim>\<open>Content-Type\<close> header, the body, the parsed query (\<^verbatim>\<open>QueryParams()\<close>) and the
  result of \<^verbatim>\<open>FormParams()\<close>, which is the parsed form or the error of the parser.
\<close>

record Request =
  Method :: string
  ContentLength :: int
  ContentType :: string
  Body :: string
  QueryParams :: Values
  FormParams :: "Values \<times> error option"

definition MethodPost :: string where "MethodPost = ''POST''"
definition MethodPut :: string where "MethodPut = ''PUT''"
definition MethodPatch :: string where "MethodPatch = ''PATCH''"

text \<open>
  Modelled from the spec: the declarations of the MIME constants are not among the
  sources; the spec gives the content-type prefixes that select each strategy.
\<close>

definition MIMEApplicationJSON :: string where "MIMEApplicationJSON = ''application/json''"
definition MIMEApplicationXML :: string where "MIMEApplicationXML = ''application/xml''"
definition MIMETextXML :: string where "MIMETextXML = ''text/xml''"
definition MIMEApplicationForm :: string where
  "MIMEApplicationForm = ''application/x-www-form-urlencoded''"
definition MIMEMultipartForm :: string where "MIMEMultipartForm = ''multipart/form-data''"

definition HasPrefix :: "string \<Rightarrow> string \<Rightarrow> bool" where
  "HasPrefix s pre = (take (length pre) s = pre)"

fun Itoa_nat :: "nat \<Rightarrow> string" where
  "Itoa_nat n =
     (if n < 10 then [char_of (48 + n)] else Itoa_nat (n div 10) @ [char_of (48 + n mod 10)])"

declare Itoa_nat.simps [simp del]

definition Itoa :: "int \<Rightarrow> string" where
  "Itoa i = (if i < 0 then CHR ''-'' # Itoa_nat (nat (- i)) else Itoa_nat (nat i))"

fun num_err_text :: "num_err \<Rightarrow> string" where
  "num_err_text ErrSyntax = ''invalid syntax''"
| "num_err_text ErrRange = ''value out of range''"
| "num_err_text (ErrBitSize b) = ''invalid bit size '' @ Itoa (int b)"

text \<open>
  The \<^verbatim>\<open>Error()\<close> method of each error. The sources hold two versions of the file that
  declares \<^verbatim>\<open>HTTPError\<close>; they differ in the text of a message only, and the model
  follows the one whose \<^verbatim>\<open>Error()\<close> prints the message and the code.
\<close>

fun Error :: "golib \<Rightarrow> error \<Rightarrow> string" where
  "Error lib (ErrorString s) = s"
| "Error lib (NumError f n e) =
     ''strconv.'' @ f @ '': parsing '' @ Quote lib n @ '': '' @ num_err_text e"
| "Error lib (XMLUnsupportedTypeError ty) = ''xml: unsupported type: '' @ ty"
| "Error lib (XMLSyntaxError msg line) =
     ''XML syntax error on line '' @ Itoa line @ '': '' @ msg"
| "Error lib (OtherError s) = s"
| "Error lib (HTTPError (Some e) code msg) = Error lib e"
| "Error lib (HTTPError None code msg) = msg @ '' ('' @ Itoa code @ '')''"

definition StatusBadRequest :: int where "StatusBadRequest = 400"
definition StatusUnsupportedMediaType :: int where "StatusUnsupportedMediaType = 415"

definition WrapHTTPError :: "error \<Rightarrow> int \<Rightarrow> string \<Rightarrow> error" where
  "WrapHTTPError err code message = HTTPError (Some err) code message"

definition ErrUnsupportedMediaType :: error where
  "ErrUnsupportedMediaType = HTTPError None StatusUnsupportedMediaType ''Unsupported Media Type''"

definition BindBody :: "golib \<Rightarrow> Request \<Rightarrow> (gtype \<times> gval) option
    \<Rightarrow> (gtype \<times> gval) option \<times> outcome" where
  "BindBody lib req i =
     (if ContentLength req = 0 then (i, Ok)
      else
        let ctype = ContentType req
        in if HasPrefix ctype MIMEApplicationJSON then
             (case DecodeJSON lib (Body req) i of
                (i', None) \<Rightarrow> (i', Ok)
              | (i', Some err) \<Rightarrow>
                  (case err of
                     HTTPError e c m \<Rightarrow> (i', Err err)
                   | _ \<Rightarrow> (i', Err (WrapHTTPError err StatusBadRequest (Error lib err)))))
           else if HasPrefix ctype MIMEApplicationXML \<or> HasPrefix ctype MIMETextXML then
             (case DecodeXML lib (Body req) i of
                (i', None) \<Rightarrow> (i', Ok)
              | (i', Some err) \<Rightarrow>
                  (case err of
                     XMLUnsupportedTypeError ty \<Rightarrow>
                       (i', Err (WrapHTTPError err StatusBadRequest
                          (''Unsupported type error: type='' @ ty @ '', error='' @ Error lib err)))
                   | XMLSyntaxError msg line \<Rightarrow>
                       (i', Err (WrapHTTPError err StatusBadRequest
                          (''Syntax error: line='' @ Itoa line @ '', error='' @ Error lib err)))
                   | _ \<Rightarrow> (i', Err (WrapHTTPError err StatusBadRequest (Error lib err)))))
           else if HasPrefix ctype MIMEApplicationForm \<or> HasPrefix ctype MIMEMultipartForm then
             (case FormParams req of
                (params, Some err) \<Rightarrow>
                  (i, Err (WrapHTTPError err StatusBadRequest (Error lib err)))
              | (params, None) \<Rightarrow>
                  (case bindData lib i params ''form'' of
                     (i', Err err) \<Rightarrow>
                       (i', Err (WrapHTTPError err StatusBadRequest (Error lib err)))
                   | (i', r) \<Rightarrow> (i', r)))
           else (i, Err ErrUnsupportedMediaType))"

definition BindQueryParams :: "golib \<Rightarrow> Request \<Rightarrow> (gtype \<times> gval) option
    \<Rightarrow> (gtype \<times> gval) option \<times> outcome" where
  "BindQueryParams lib req i =
     (case bindData lib i (QueryParams req) ''query'' of
        (i', Err err) \<Rightarrow> (i', Err (WrapHTTPError err StatusBadRequest (Error lib err)))
      | (i', r) \<Rightarrow> (i', r))"

definition Bind :: "golib \<Rightarrow> Request \<Rightarrow> (gtype \<times> gval) option
    \<Rightarrow> (gtype \<times> gval) option \<times> outcome" where
  "Bind lib req v =
     (let method = Method req
      in if method = MethodPost \<or> method = MethodPut \<or> method = MethodPatch then
           (case BindBody lib req v of
              (v', Ok) \<Rightarrow> BindQueryParams lib req v'
            | (v', r) \<Rightarrow> (v', r))
         else BindQueryParams lib req v)"

text \<open>
  A library instance for the concrete examples below: \<^verbatim>\<open>ParseFloat\<close> on the one string
  the examples need, \<^verbatim>\<open>EqualFold\<close> on ASCII letters, decoders that leave the target as
  it is.
\<close>

definition asciiLower :: "char \<Rightarrow> nat" where
  "asciiLower c =
     (if 65 \<le> (of_char c :: nat) \<and> (of_char c :: nat) \<le> 90 then (of_char c :: nat) + 32
      else of_char c)"

definition exampleLib :: golib where
  "exampleLib = \<lparr>
     ParseFloat = (\<lambda>s bitSize.
        if s = ''0.0'' then (0, None) else (0, Some (NumError ''ParseFloat'' s ErrSyntax))),
     EqualFold = (\<lambda>s t. map asciiLower s = map asciiLower t),
     Quote = (\<lambda>s. CHR 0x22 # s @ [CHR 0x22]),
     DecodeJSON = (\<lambda>body i. (i, None)),
     DecodeXML = (\<lambda>body i. (i, None)) \<rparr>"

text \<open>
  For the examples with a JSON body: a library whose JSON decoder leaves a given
  target, standing for what \<^verbatim>\<open>encoding/json\<close> decodes from the body of the example, and
  a request with a JSON body and a query.
\<close>

definition decodingJSON :: "(gtype \<times> gval) option \<Rightarrow> golib" where
  "decodingJSON d = exampleLib\<lparr>DecodeJSON := \<lambda>body i. (d, None)\<rparr>"

definition jsonRequest :: "string \<Rightarrow> string \<Rightarrow> Values \<Rightarrow> Request" where
  "jsonRequest method body query =
     \<lparr>Method = method, ContentLength = int (length body), ContentType = ''application/json'',
      Body = body, QueryParams = query, FormParams = ([], None)\<rparr>"

section \<open>Evaluation lemmas\<close>

lemmas parse_eval = ParseInt_def ParseUint_def isDigit_def digitVal_def maxUint64_def Let_def
  IntSize_def ParseBool_def

lemma capOf_ptr_kind: "Kind et = KPtr \<Longrightarrow> capOf et = NoCap"
  by (cases et) simp_all

lemma setWithProperType_NoCap:
  "capOf t = NoCap \<Longrightarrow> valueKind \<noteq> KPtr \<Longrightarrow>
   setWithProperType lib valueKind val t field = setScalar lib valueKind val t field"
  by (subst setWithProperType.simps) (simp add: unmarshalField_def unmarshalFieldNonPtr_def)

lemma setWithProperType_cap:
  assumes "capOf t = BindUnmarshaler um \<or> capOf t = TextUnmarshaler um"
  shows "setWithProperType lib (Kind t) val t x = (fst (um val x), of_error (snd (um val x)))"
proof -
  from assms have "Kind t \<noteq> KPtr"
    using capOf_ptr_kind by fastforce
  with assms show ?thesis
    by (subst setWithProperType.simps)
       (auto simp: unmarshalField_def unmarshalFieldNonPtr_def split: prod.splits)
qed

lemmas coerce_eval = setWithProperType_NoCap setScalar_def setIntField_def setUintField_def
  setBoolField_def setFloatField_def SetInt_def SetUint_def SetBool_def SetFloat_def SetString_def
  isIntKind_def isUintKind_def isFloatKind_def intBits_def wrapSigned_def zeroBasic_def
  switchBitSize_def

lemmas walk_eval = bindField.simps fieldElem_def isElemOf_def fieldStore_def TagGet_def
  lookupInput_def bindTagged_def index0_def unmarshalField_def unmarshalFieldNonPtr_def
  unmarshalFieldPtr_def isBindUnmarshaler_def bindInput_def

lemmas dispatch_eval = Bind_def BindBody_def BindQueryParams_def HasPrefix_def
  MIMEApplicationJSON_def MIMEApplicationXML_def MIMETextXML_def MIMEApplicationForm_def
  MIMEMultipartForm_def MethodPost_def MethodPut_def MethodPatch_def WrapHTTPError_def

section \<open>The coercer: empty strings, parse failures, pointers\<close>

lemma ParseUint_zero: "bitSize \<le> 64 \<Longrightarrow> ParseUint ''0'' bitSize = (0, None)"
  by (simp add: ParseUint_def isDigit_def digitVal_def maxUint64_def Let_def)

lemma ParseInt_zero: "bitSize \<le> 64 \<Longrightarrow> ParseInt ''0'' bitSize = (0, None)"
  by (simp add: ParseInt_def ParseUint_zero Let_def)

lemma ParseBool_false: "ParseBool ''false'' = (False, None)"
  by (simp add: ParseBool_def)

lemma wrapSigned_zero: "0 < b \<Longrightarrow> wrapSigned b 0 = 0"
  by (simp add: wrapSigned_def)

lemma intBits_pos: "0 < intBits k"
  by (simp add: intBits_def IntSize_def)

lemma setIntField_empty:
  "bitSize \<le> 64 \<Longrightarrow> isIntKind k \<Longrightarrow> setIntField [] bitSize (TBasic k c) field = (VInt 0, Ok)"
  by (simp add: setIntField_def ParseInt_zero SetInt_def wrapSigned_zero intBits_pos)

lemma setUintField_empty:
  "bitSize \<le> 64 \<Longrightarrow> isUintKind k \<Longrightarrow> setUintField [] bitSize (TBasic k c) field = (VUint 0, Ok)"
  by (simp add: setUintField_def ParseUint_zero SetUint_def)

lemma setBoolField_empty: "setBoolField [] (TBasic KBool c) field = (VBool False, Ok)"
  by (simp add: setBoolField_def ParseBool_false SetBool_def)

lemma setFloatField_empty:
  "ParseFloat lib ''0.0'' bitSize = (0, None) \<Longrightarrow> isFloatKind k \<Longrightarrow>
   setFloatField lib [] bitSize (TBasic k c) field = (VFloat 0, Ok)"
  by (auto simp: setFloatField_def SetFloat_def isFloatKind_def)

text \<open>
  Claim C5. Coercing the empty string into an integer field (signed or unsigned, of
  any bit size up to 64), a boolean field or a floating-point field succeeds and
  stores the zero value: \<open>0\<close>, \<open>false\<close>, \<open>0.0\<close>. This holds for each of the four
  setters and for \<^verbatim>\<open>setWithProperType\<close> on a field type without custom decoder. The
  float case rests on \<^verbatim>\<open>strconv.ParseFloat\<close> reading \<^verbatim>\<open>"0.0"\<close> as \<^verbatim>\<open>+0.0\<close>.
\<close>

theorem empty_string_zero_value:
  "(bitSize \<le> 64 \<and> isIntKind k1 \<longrightarrow>
      setIntField [] bitSize (TBasic k1 c1) f1 = (VInt 0, Ok)) \<and>
   (bitSize' \<le> 64 \<and> isUintKind k2 \<longrightarrow>
      setUintField [] bitSize' (TBasic k2 c2) f2 = (VUint 0, Ok)) \<and>
   setBoolField [] (TBasic KBool c3) f3 = (VBool False, Ok) \<and>
   (ParseFloat lib ''0.0'' fbits = (0, None) \<and> isFloatKind k4 \<longrightarrow>
      setFloatField lib [] fbits (TBasic k4 c4) f4 = (VFloat 0, Ok)) \<and>
   (k \<in> set [KInt, KInt8, KInt16, KInt32, KInt64, KUint, KUint8, KUint16, KUint32, KUint64,
              KBool, KFloat32, KFloat64] \<and>
    (\<forall>b. ParseFloat lib ''0.0'' b = (0, None)) \<longrightarrow>
      setWithProperType lib (Basic k) [] (TBasic k NoCap) f = (zeroBasic k, Ok))"
proof -
  have "setWithProperType lib (Basic k) [] (TBasic k NoCap) f = (zeroBasic k, Ok)"
    if "k \<in> set [KInt, KInt8, KInt16, KInt32, KInt64, KUint, KUint8, KUint16, KUint32, KUint64,
              KBool, KFloat32, KFloat64]" and "\<forall>b. ParseFloat lib ''0.0'' b = (0, None)"
    using that
    by (auto simp: setWithProperType_NoCap setScalar_def setIntField_empty setUintField_empty
        setBoolField_empty setFloatField_empty isIntKind_def isUintKind_def isFloatKind_def
        zeroBasic_def)
  then show ?thesis
    by (simp add: setIntField_empty setUintField_empty setBoolField_empty setFloatField_empty)
qed

theorem empty_string_zero_value_witness:
  "setIntField [] 8 (TBasic KInt8 NoCap) (VInt 5) = (VInt 0, Ok) \<and>
   setUintField [] 16 (TBasic KUint16 NoCap) (VUint 7) = (VUint 0, Ok) \<and>
   setBoolField [] (TBasic KBool NoCap) (VBool True) = (VBool False, Ok) \<and>
   ParseFloat exampleLib ''0.0'' 64 = (0, None) \<and>
   setFloatField exampleLib [] 64 (TBasic KFloat64 NoCap) (VFloat 1) = (VFloat 0, Ok) \<and>
   setWithProperType exampleLib (Basic KInt32) [] (TBasic KInt32 NoCap) (VInt 9) = (VInt 0, Ok)"
  using empty_string_zero_value [of 8 KInt8 NoCap "VInt 5" 16 KUint16 NoCap "VUint 7" NoCap
      "VBool True" exampleLib 64 KFloat64 NoCap "VFloat 1" KInt32 "VInt 9"]
  by (simp add: isIntKind_def isUintKind_def isFloatKind_def exampleLib_def zeroBasic_def)

text \<open>
  Claim C6. For an integer or unsigned-integer field, a non-empty string on which the
  base-10 parser of the declared bit size reports an error makes the coercer return
  exactly that error, and the field keeps the value it had. This holds for the two
  setters and for \<^verbatim>\<open>setWithProperType\<close> on a field type without custom decoder.
\<close>

theorem parse_failure_leaves_field:
  "(value \<noteq> [] \<and> ParseInt value bitSize = (n, Some err) \<longrightarrow>
      setIntField value bitSize t field = (field, Err err)) \<and>
   (value \<noteq> [] \<and> ParseUint value bitSize = (m, Some err') \<longrightarrow>
      setUintField value bitSize t field = (field, Err err')) \<and>
   (value \<noteq> [] \<and> k \<in> set [KInt, KInt8, KInt16, KInt32, KInt64] \<and>
    ParseInt value (switchBitSize k) = (n, Some err) \<longrightarrow>
      setWithProperType lib (Basic k) value (TBasic k NoCap) field = (field, Err err)) \<and>
   (value \<noteq> [] \<and> k \<in> set [KUint, KUint8, KUint16, KUint32, KUint64] \<and>
    ParseUint value (switchBitSize k) = (m, Some err') \<longrightarrow>
      setWithProperType lib (Basic k) value (TBasic k NoCap) field = (field, Err err'))"
  by (auto simp: setIntField_def setUintField_def setWithProperType_NoCap setScalar_def
      switchBitSize_def)

theorem parse_failure_leaves_field_witness:
  "ParseInt ''12a'' 8 = (0, Some (NumError ''ParseInt'' ''12a'' ErrSyntax)) \<and>
   setIntField ''12a'' 8 (TBasic KInt8 NoCap) (VInt 5) =
     (VInt 5, Err (NumError ''ParseInt'' ''12a'' ErrSyntax)) \<and>
   ParseUint ''256'' 8 = (255, Some (NumError ''ParseUint'' ''256'' ErrRange)) \<and>
   setUintField ''256'' 8 (TBasic KUint8 NoCap) (VUint 7) =
     (VUint 7, Err (NumError ''ParseUint'' ''256'' ErrRange)) \<and>
   setWithProperType exampleLib (Basic KInt8) ''12a'' (TBasic KInt8 NoCap) (VInt 5) =
     (VInt 5, Err (NumError ''ParseInt'' ''12a'' ErrSyntax)) \<and>
   setWithProperType exampleLib (Basic KUint8) ''256'' (TBasic KUint8 NoCap) (VUint 7) =
     (VUint 7, Err (NumError ''ParseUint'' ''256'' ErrRange))"
proof -
  have i: "ParseInt ''12a'' 8 = (0, Some (NumError ''ParseInt'' ''12a'' ErrSyntax))"
    by (simp add: parse_eval)
  have u: "ParseUint ''256'' 8 = (255, Some (NumError ''ParseUint'' ''256'' ErrRange))"
    by (simp add: parse_eval)
  show ?thesis
    using i u
      parse_failure_leaves_field [of "''12a''" 8 0 "NumError ''ParseInt'' ''12a'' ErrSyntax"
        "TBasic KInt8 NoCap" "VInt 5" 255 "NumError ''ParseUint'' ''256'' ErrRange" KInt8 exampleLib]
      parse_failure_leaves_field [of "''256''" 8 127 "NumError ''ParseInt'' ''256'' ErrRange"
        "TBasic KUint8 NoCap" "VUint 7" 255 "NumError ''ParseUint'' ''256'' ErrRange" KUint8 exampleLib]
    by (simp add: switchBitSize_def)
qed

lemma setWithProperType_ptr:
  "setWithProperType lib KPtr val (TPtr et) (VPtr p) =
     (case setWithProperType lib (Kind et) val et (case p of None \<Rightarrow> zero et | Some x \<Rightarrow> x) of
        (elem', r) \<Rightarrow> (VPtr (Some elem'), r))"
proof -
  define elem where "elem = (case p of None \<Rightarrow> zero et | Some x \<Rightarrow> x)"
  have lhs: "setWithProperType lib KPtr val (TPtr et) (VPtr p) =
      (case unmarshalFieldNonPtr val et elem of
         (ok, elem', r) \<Rightarrow>
           if r \<noteq> Ok \<or> ok then (VPtr (Some elem'), r)
           else (case setWithProperType lib (Kind et) val et elem' of
                   (elem'', r') \<Rightarrow> (VPtr (Some elem''), r')))"
    by (subst setWithProperType.simps)
       (simp add: unmarshalField_def unmarshalFieldPtr_def elem_def split: prod.splits)
  show ?thesis
  proof (cases "capOf et")
    case NoCap
    then show ?thesis
      unfolding lhs elem_def [symmetric] by (simp add: unmarshalFieldNonPtr_def)
  next
    case (BindUnmarshaler um)
    then have "setWithProperType lib (Kind et) val et elem =
        (fst (um val elem), of_error (snd (um val elem)))"
      by (simp add: setWithProperType_cap)
    with BindUnmarshaler show ?thesis
      unfolding lhs elem_def [symmetric]
      by (simp add: unmarshalFieldNonPtr_def split: prod.splits)
  next
    case (TextUnmarshaler um)
    then have "setWithProperType lib (Kind et) val et elem =
        (fst (um val elem), of_error (snd (um val elem)))"
      by (simp add: setWithProperType_cap)
    with TextUnmarshaler show ?thesis
      unfolding lhs elem_def [symmetric]
      by (simp add: unmarshalFieldNonPtr_def split: prod.splits)
  qed
qed

text \<open>
  Claim C9. Coercing a string into a pointer field allocates the zero value of the
  pointee type when the pointer is nil, coerces the string into the pointee with the
  pointee's own kind, and leaves the pointer pointing at the result: the outcome is
  that of the coercion of the pointee, and the pointer is not nil afterwards.
\<close>

theorem pointer_coercion:
  "setWithProperType lib KPtr val (TPtr et) (VPtr p) =
     (case setWithProperType lib (Kind et) val et (case p of None \<Rightarrow> zero et | Some x \<Rightarrow> x) of
        (elem', r) \<Rightarrow> (VPtr (Some elem'), r)) \<and>
   (setWithProperType lib KPtr val (TPtr et) (VPtr p) = (w, Ok) \<longrightarrow>
      (\<exists>elem'. w = VPtr (Some elem') \<and>
         setWithProperType lib (Kind et) val et (case p of None \<Rightarrow> zero et | Some x \<Rightarrow> x) =
           (elem', Ok)))"
  by (auto simp: setWithProperType_ptr split: prod.splits)

theorem pointer_coercion_witness:
  "setWithProperType exampleLib KPtr ''7'' (TPtr (TBasic KInt8 NoCap)) (VPtr None) =
     (VPtr (Some (VInt 7)), Ok) \<and>
   setWithProperType exampleLib KPtr ''x'' (TPtr (TBasic KInt8 NoCap)) (VPtr None) =
     (VPtr (Some (VInt 0)), Err (NumError ''ParseInt'' ''x'' ErrSyntax)) \<and>
   setWithProperType exampleLib KPtr ''7'' (TPtr (TPtr (TBasic KString NoCap))) (VPtr None) =
     (VPtr (Some (VPtr (Some (VString ''7'')))), Ok)"
  using pointer_coercion [of exampleLib "''7''" "TBasic KInt8 NoCap" None "VPtr (Some (VInt 7))"]
    pointer_coercion [of exampleLib "''x''" "TBasic KInt8 NoCap" None "VPtr None"]
    pointer_coercion [of exampleLib "''7''" "TPtr (TBasic KString NoCap)" None "VPtr None"]
    pointer_coercion [of exampleLib "''7''" "TBasic KString NoCap" None "VPtr None"]
  by (simp add: coerce_eval parse_eval)

section \<open>Targets that are neither struct nor map\<close>

text \<open>
  Claim C8, as the code has it. When the value map is not empty and the target is
  neither a struct nor a map, the decode returns success and leaves the target as it
  is for the source kind \<open>query\<close>, and fails with the error
  \<^verbatim>\<open>binding element must be a struct\<close> for every other source kind. With an empty
  value map the decode is a no-op success for every source kind.
\<close>

theorem not_struct_target:
  "data \<noteq> [] \<Longrightarrow> Kind typ \<noteq> KStruct \<Longrightarrow> Kind typ \<noteq> KMap \<Longrightarrow>
   bindData lib (Some (TPtr typ, VPtr p)) data tag =
     (if tag = ''query'' then (Some (TPtr typ, VPtr p), Ok)
      else (Some (TPtr typ, VPtr p), Err (ErrorString ''binding element must be a struct'')))"
  by simp

theorem not_struct_target_witness:
  "[(''a'', [''1''])] \<noteq> ([] :: Values) \<and> Kind (TBasic KInt NoCap) \<noteq> KStruct \<and>
   Kind (TBasic KInt NoCap) \<noteq> KMap \<and>
   bindData exampleLib (Some (TPtr (TBasic KInt NoCap), VPtr (Some (VInt 0)))) [(''a'', [''1''])]
       ''form'' =
     (Some (TPtr (TBasic KInt NoCap), VPtr (Some (VInt 0))),
      Err (ErrorString ''binding element must be a struct'')) \<and>
   bindData exampleLib (Some (TPtr (TBasic KInt NoCap), VPtr (Some (VInt 0)))) [(''a'', [''1''])]
       ''query'' =
     (Some (TPtr (TBasic KInt NoCap), VPtr (Some (VInt 0))), Ok)"
  using not_struct_target [of "[(''a'', [''1''])]" "TBasic KInt NoCap" exampleLib "Some (VInt 0)"
      "''form''"]
    not_struct_target [of "[(''a'', [''1''])]" "TBasic KInt NoCap" exampleLib "Some (VInt 0)"
      "''query''"]
  by simp

text \<open>
  The claim C8 as stated fails on the empty value map: the target is an \<^verbatim>\<open>int\<close>, the
  source kind is \<open>form\<close>, and the decode returns success.
\<close>

theorem not_struct_target_counterexample:
  "Kind (TBasic KInt NoCap) \<noteq> KStruct \<and> Kind (TBasic KInt NoCap) \<noteq> KMap \<and>
   bindData exampleLib (Some (TPtr (TBasic KInt NoCap), VPtr (Some (VInt 0)))) [] ''form'' =
     (Some (TPtr (TBasic KInt NoCap), VPtr (Some (VInt 0))), Ok)"
  by simp

section \<open>The field walker: lookup of a tag name\<close>

lemma foldScan_first:
  "EqualFold lib k name \<Longrightarrow> \<forall>(k', v') \<in> set pre. \<not> EqualFold lib k' name \<Longrightarrow>
   foldScan lib name (pre @ (k, vals) # post) = Some vals"
  by (induction pre) auto

lemma foldScan_none:
  "\<forall>(k', v') \<in> set data. \<not> EqualFold lib k' name \<Longrightarrow> foldScan lib name data = None"
  by (induction data) auto

lemma map_of_absent: "name \<notin> fst ` set data \<Longrightarrow> map_of data name = None"
  by (simp add: map_of_eq_None_iff)

lemma bindField_tagged:
  assumes "fieldElem f fv = Some (t, structField)" "exported f"
    "TagGet (ftag f) tag = name" "name \<noteq> []" "\<not> (anonymous f \<and> Kind t = KStruct)"
  shows "bindField lib data tag f fv =
     (case lookupInput lib data name of
        None \<Rightarrow> (fv, Ok)
      | Some inputValue \<Rightarrow> bindInput lib f inputValue t structField)"
  using assms by (subst bindField.simps) (auto simp: bindInput_def Let_def split: option.splits)

lemma fold1: "EqualFold exampleLib ''NAME'' ''Name''"
  by (simp add: exampleLib_def asciiLower_def)

lemma fold2: "\<not> EqualFold exampleLib ''other'' ''Name''"
  by (simp add: exampleLib_def asciiLower_def)

text \<open>
  Claim C4, as the code has it. For a tagged field that reaches the lookup (it can be
  set and is not an embedded struct): when the value map has a key equal to the tag
  name, the values of that entry are bound, whatever other keys the map has; when it
  has none, the entries are scanned and the values of the first key that
  \<^verbatim>\<open>EqualFold\<close> accepts are bound; when no key is accepted either, the field is left as
  it is and no error is returned.
\<close>

theorem tag_lookup_order:
  assumes "fieldElem f fv = Some (t, structField)" and "exported f"
    and "TagGet (ftag f) tag = name" and "name \<noteq> []"
    and "\<not> (anonymous f \<and> Kind t = KStruct)" and "distinct (map fst data)"
  shows "((name, vals) \<in> set data \<longrightarrow>
            bindField lib data tag f fv = bindInput lib f vals t structField) \<and>
         (name \<notin> fst ` set data \<and> data = pre @ (k, vals) # post \<and> EqualFold lib k name \<and>
          (\<forall>(k', v') \<in> set pre. \<not> EqualFold lib k' name) \<longrightarrow>
            bindField lib data tag f fv = bindInput lib f vals t structField) \<and>
         (name \<notin> fst ` set data \<and> (\<forall>(k', v') \<in> set data. \<not> EqualFold lib k' name) \<longrightarrow>
            bindField lib data tag f fv = (fv, Ok))"
proof (intro conjI impI)
  assume "(name, vals) \<in> set data"
  with assms(6) have "map_of data name = Some vals"
    by simp
  then show "bindField lib data tag f fv = bindInput lib f vals t structField"
    by (simp add: bindField_tagged [OF assms(1-5)] lookupInput_def)
next
  assume a: "name \<notin> fst ` set data \<and> data = pre @ (k, vals) # post \<and> EqualFold lib k name \<and>
          (\<forall>(k', v') \<in> set pre. \<not> EqualFold lib k' name)"
  then have "name \<notin> fst ` set data"
    by blast
  then have "map_of data name = None"
    by (rule map_of_absent)
  moreover from a have "foldScan lib name data = Some vals"
    by (simp add: foldScan_first)
  ultimately show "bindField lib data tag f fv = bindInput lib f vals t structField"
    by (simp add: bindField_tagged [OF assms(1-5)] lookupInput_def)
next
  assume a: "name \<notin> fst ` set data \<and> (\<forall>(k', v') \<in> set data. \<not> EqualFold lib k' name)"
  then have "name \<notin> fst ` set data"
    by blast
  then have "map_of data name = None"
    by (rule map_of_absent)
  moreover from a have "foldScan lib name data = None"
    by (simp add: foldScan_none)
  ultimately show "bindField lib data tag f fv = (fv, Ok)"
    by (simp add: bindField_tagged [OF assms(1-5)] lookupInput_def)
qed

theorem tag_lookup_order_witness:
  "bindField exampleLib [(''name'', [''lower'']), (''Name'', [''exact''])] ''query''
     (SField ''Name'' (TBasic KString NoCap) False True [(''query'', ''Name'')]) (VString []) =
     (VString ''exact'', Ok) \<and>
   bindField exampleLib [(''NAME'', [''upper'']), (''name'', [''lower''])] ''query''
     (SField ''Name'' (TBasic KString NoCap) False True [(''query'', ''Name'')]) (VString []) =
     (VString ''upper'', Ok) \<and>
   bindField exampleLib [(''other'', [''x''])] ''query''
     (SField ''Name'' (TBasic KString NoCap) False True [(''query'', ''Name'')]) (VString []) =
     (VString [], Ok)"
  using
    tag_lookup_order [of "SField ''Name'' (TBasic KString NoCap) False True [(''query'', ''Name'')]"
      "VString []" "TBasic KString NoCap" "VString []" "''query''" "''Name''"
      "[(''name'', [''lower'']), (''Name'', [''exact''])]" "[''exact'']" exampleLib "[]" "''x''" "[]"]
    tag_lookup_order [of "SField ''Name'' (TBasic KString NoCap) False True [(''query'', ''Name'')]"
      "VString []" "TBasic KString NoCap" "VString []" "''query''" "''Name''"
      "[(''NAME'', [''upper'']), (''name'', [''lower''])]" "[''upper'']" exampleLib "[]" "''NAME''"
      "[(''name'', [''lower''])]"]
    tag_lookup_order [of "SField ''Name'' (TBasic KString NoCap) False True [(''query'', ''Name'')]"
      "VString []" "TBasic KString NoCap" "VString []" "''query''" "''Name''"
      "[(''other'', [''x''])]" "[]" exampleLib "[]" "''x''" "[]"]
    fold1 fold2
  by (simp add: fieldElem_def isElemOf_def TagGet_def bindInput_def bindTagged_def index0_def
      unmarshalField_def unmarshalFieldNonPtr_def fieldStore_def coerce_eval)

text \<open>
  The claim C4 as stated fails for the tagged fields that do not reach the lookup: an
  embedded struct with a tag makes the decode fail although no key of the map matches
  the tag name, and a tagged field that is not exported is left as it is although the
  map has the exact key.
\<close>

theorem tag_lookup_order_counterexample:
  "lookupInput exampleLib [(''other'', [''x''])] ''inner'' = None \<and>
   bindField exampleLib [(''other'', [''x''])] ''query''
     (SField ''Inner'' (TStruct [] NoCap) True True [(''query'', ''inner'')]) (VStruct []) =
     (VStruct [],
      Err (ErrorString ''query/form tags are not allowed with anonymous struct field'')) \<and>
   lookupInput exampleLib [(''name'', [''a''])] ''name'' = Some [''a''] \<and>
   bindField exampleLib [(''name'', [''a''])] ''query''
     (SField ''name'' (TBasic KString NoCap) False False [(''query'', ''name'')]) (VString []) =
     (VString [], Ok)"
  by (simp add: walk_eval exampleLib_def asciiLower_def)

section \<open>The field walker: slice fields\<close>

lemma setElems_all_ok:
  "\<forall>s \<in> set vals. snd (setWithProperType lib k s et (zero et)) = Ok \<Longrightarrow>
   setElems lib k et vals = (map (\<lambda>s. fst (setWithProperType lib k s et (zero et))) vals, Ok)"
  by (induction vals) (auto split: prod.splits outcome.splits)

lemma setElems_first_fail:
  "\<forall>s \<in> set pre. snd (setWithProperType lib k s et (zero et)) = Ok \<Longrightarrow>
   snd (setWithProperType lib k x et (zero et)) \<noteq> Ok \<Longrightarrow>
   snd (setElems lib k et (pre @ x # post)) = snd (setWithProperType lib k x et (zero et))"
  by (induction pre) (auto split: prod.splits outcome.splits)

text \<open>
  Claim C7, as the code has it. For a tagged slice field that can be set, without
  custom decoder, whose tag name finds a non-empty list of values: when every value
  coerces to the element type, the field becomes the slice of the coerced values, one
  per input value and in the order of the input; when a value does not coerce, the
  decode returns the outcome of the first such value and the field keeps what it held.
\<close>

theorem slice_elementwise:
  assumes "exported f" and "ftype f = TSlice et NoCap"
    and "TagGet (ftag f) tag = name" and "name \<noteq> []"
    and "lookupInput lib data name = Some vals" and "vals \<noteq> []"
  shows "((\<forall>s \<in> set vals. snd (setWithProperType lib (Kind et) s et (zero et)) = Ok) \<longrightarrow>
            bindField lib data tag f fv =
              (VSlice (map (\<lambda>s. fst (setWithProperType lib (Kind et) s et (zero et))) vals), Ok)) \<and>
         (vals = pre @ x # post \<and>
          (\<forall>s \<in> set pre. snd (setWithProperType lib (Kind et) s et (zero et)) = Ok) \<and>
          snd (setWithProperType lib (Kind et) x et (zero et)) \<noteq> Ok \<longrightarrow>
            bindField lib data tag f fv =
              (fv, snd (setWithProperType lib (Kind et) x et (zero et))))"
proof -
  have e: "fieldElem f fv = Some (TSlice et NoCap, fv)" and n: "\<not> isElemOf f"
    using assms(2) by (simp_all add: fieldElem_def isElemOf_def)
  have b: "bindField lib data tag f fv = bindInput lib f vals (TSlice et NoCap) fv"
    using bindField_tagged [OF e assms(1) assms(3) assms(4)] assms(5) by simp
  obtain v0 rest where v: "vals = v0 # rest"
    using assms(6) by (cases vals) auto
  have t: "bindInput lib f vals (TSlice et NoCap) fv =
      (case setElems lib (Kind et) et vals of
         (es, Ok) \<Rightarrow> (VSlice es, Ok)
       | (es, r) \<Rightarrow> (fv, r))"
    using assms(2) n v
    by (simp add: bindInput_def bindTagged_def index0_def unmarshalField_def
        unmarshalFieldNonPtr_def fieldStore_def split: prod.splits outcome.splits)
  show ?thesis
  proof (intro conjI impI)
    assume "\<forall>s \<in> set vals. snd (setWithProperType lib (Kind et) s et (zero et)) = Ok"
    then show "bindField lib data tag f fv =
        (VSlice (map (\<lambda>s. fst (setWithProperType lib (Kind et) s et (zero et))) vals), Ok)"
      by (simp add: b t setElems_all_ok)
  next
    assume a: "vals = pre @ x # post \<and>
          (\<forall>s \<in> set pre. snd (setWithProperType lib (Kind et) s et (zero et)) = Ok) \<and>
          snd (setWithProperType lib (Kind et) x et (zero et)) \<noteq> Ok"
    define r where "r = snd (setWithProperType lib (Kind et) x et (zero et))"
    have "snd (setElems lib (Kind et) et vals) = r"
      using a setElems_first_fail [of pre lib "Kind et" et x post] by (simp add: r_def)
    then obtain es where es: "setElems lib (Kind et) et vals = (es, r)"
      by (cases "setElems lib (Kind et) et vals") simp
    have "r \<noteq> Ok"
      using a by (simp add: r_def)
    then have "bindInput lib f vals (TSlice et NoCap) fv = (fv, r)"
      unfolding t es by (cases r) simp_all
    then show "bindField lib data tag f fv =
        (fv, snd (setWithProperType lib (Kind et) x et (zero et)))"
      by (simp add: b r_def)
  qed
qed

theorem slice_elementwise_witness:
  "bindField exampleLib [(''ids'', [''1'', ''2'', ''3''])] ''query''
     (SField ''IDs'' (TSlice (TBasic KInt NoCap) NoCap) False True [(''query'', ''ids'')])
     (VSlice []) =
     (VSlice [VInt 1, VInt 2, VInt 3], Ok) \<and>
   bindField exampleLib [(''ids'', [''1'', ''x'', ''3''])] ''query''
     (SField ''IDs'' (TSlice (TBasic KInt NoCap) NoCap) False True [(''query'', ''ids'')])
     (VSlice [VInt 9]) =
     (VSlice [VInt 9], Err (NumError ''ParseInt'' ''x'' ErrSyntax))"
  using slice_elementwise [where f = "SField ''IDs'' (TSlice (TBasic KInt NoCap) NoCap) False True
      [(''query'', ''ids'')]" and et = "TBasic KInt NoCap" and tag = "''query''"
      and name = "''ids''" and lib = exampleLib and data = "[(''ids'', [''1'', ''2'', ''3''])]"
      and vals = "[''1'', ''2'', ''3'']" and fv = "VSlice []"]
    slice_elementwise [where f = "SField ''IDs'' (TSlice (TBasic KInt NoCap) NoCap) False True
      [(''query'', ''ids'')]" and et = "TBasic KInt NoCap" and tag = "''query''"
      and name = "''ids''" and lib = exampleLib and data = "[(''ids'', [''1'', ''x'', ''3''])]"
      and vals = "[''1'', ''x'', ''3'']" and fv = "VSlice [VInt 9]"
      and pre = "[''1'']" and x = "''x''" and post = "[''3'']"]
  by (simp add: TagGet_def lookupInput_def coerce_eval parse_eval)


text \<open>
  The claim C7 as stated fails for a tagged slice field that is not exported, which the
  walker skips although the map has its key, and when one of the values does not
  coerce: the decode returns the error of that value and assigns no slice.
\<close>

theorem slice_elementwise_counterexample:
  "bindField exampleLib [(''ids'', [''1'', ''2'', ''3''])] ''query''
     (SField ''ids'' (TSlice (TBasic KInt NoCap) NoCap) False False [(''query'', ''ids'')])
     (VSlice []) = (VSlice [], Ok) \<and>
   bindField exampleLib [(''ids'', [''1'', ''x'', ''3''])] ''query''
     (SField ''IDs'' (TSlice (TBasic KInt NoCap) NoCap) False True [(''query'', ''ids'')])
     (VSlice []) = (VSlice [], Err (NumError ''ParseInt'' ''x'' ErrSyntax))"
  by (simp add: walk_eval coerce_eval parse_eval)

section \<open>The field walker: fields without a tag\<close>

lemma bindData_shape:
  "\<exists>x' r. bindData lib (Some (TPtr t, VPtr (Some x))) data tag = (Some (TPtr t, VPtr (Some x')), r)"
  by (auto split: gtype.splits prod.splits gval.splits option.splits)

lemma bindField_untagged_struct:
  assumes "TagGet (ftag f) tag = []" "exported f" "fieldElem f fv = Some (t, x)"
    "Kind t = KStruct" "\<not> isBindUnmarshaler t"
  shows "\<exists>x' r. bindData lib (Some (TPtr t, VPtr (Some x))) data tag =
            (Some (TPtr t, VPtr (Some x')), r) \<and>
          bindField lib data tag f fv = (fieldStore f x', r)"
proof -
  obtain x' r where b: "bindData lib (Some (TPtr t, VPtr (Some x))) data tag =
      (Some (TPtr t, VPtr (Some x')), r)"
    using bindData_shape by blast
  with assms have "bindField lib data tag f fv = (fieldStore f x', r)"
    by (subst bindField.simps) simp
  with b show ?thesis by blast
qed

lemma bindField_untagged_skip:
  assumes "TagGet (ftag f) tag = []"
    and "\<not> exported f \<or> fieldElem f fv = None \<or>
         (\<exists>t x. fieldElem f fv = Some (t, x) \<and> (Kind t \<noteq> KStruct \<or> isBindUnmarshaler t))"
  shows "bindField lib data tag f fv = (fv, Ok)"
  using assms by (subst bindField.simps) (auto split: option.splits)

text \<open>
  Claim C3, as the code has it. For a field without a tag for the source kind: when
  the field can be set and is a struct (the field itself, or the pointee of an embedded
  pointer that is not nil) whose type does not implement \<^verbatim>\<open>BindUnmarshaler\<close>, the walker
  runs \<^verbatim>\<open>bindData\<close> on it with the same value map and source kind and stores the
  result; a type that implements only \<^verbatim>\<open>encoding.TextUnmarshaler\<close> is recursed into as
  well. When the struct type implements \<^verbatim>\<open>BindUnmarshaler\<close>, when the field is not a
  struct, or when the field cannot be set, the field is left as it is, without error.
\<close>

theorem untagged_field:
  assumes "TagGet (ftag f) tag = []"
  shows "(exported f \<and> fieldElem f fv = Some (t, x) \<and> Kind t = KStruct \<and> \<not> isBindUnmarshaler t \<longrightarrow>
           (\<exists>x' r. bindData lib (Some (TPtr t, VPtr (Some x))) data tag =
                      (Some (TPtr t, VPtr (Some x')), r) \<and>
                    bindField lib data tag f fv = (fieldStore f x', r))) \<and>
         (exported f \<and> fieldElem f fv = Some (t, x) \<and> Kind t = KStruct \<and> isBindUnmarshaler t \<longrightarrow>
           bindField lib data tag f fv = (fv, Ok)) \<and>
         (exported f \<and> fieldElem f fv = Some (t, x) \<and> Kind t \<noteq> KStruct \<longrightarrow>
           bindField lib data tag f fv = (fv, Ok)) \<and>
         (\<not> exported f \<or> fieldElem f fv = None \<longrightarrow> bindField lib data tag f fv = (fv, Ok))"
  using bindField_untagged_struct [OF assms, of fv t x lib data]
    bindField_untagged_skip [OF assms, of fv lib data]
  by blast

theorem untagged_field_witness:
  "bindField exampleLib [(''x'', [''5''])] ''query''
     (SField ''Inner'' (TStruct [SField ''X'' (TBasic KInt NoCap) False True [(''query'', ''x'')]] NoCap)
        False True [])
     (VStruct [VInt 0]) = (VStruct [VInt 5], Ok) \<and>
   bindField exampleLib [(''x'', [''5''])] ''query''
     (SField ''Inner''
        (TStruct [SField ''X'' (TBasic KInt NoCap) False True [(''query'', ''x'')]]
           (BindUnmarshaler (\<lambda>s v. (v, None))))
        False True [])
     (VStruct [VInt 0]) = (VStruct [VInt 0], Ok) \<and>
   bindField exampleLib [(''x'', [''5''])] ''query''
     (SField ''N'' (TBasic KInt NoCap) False True []) (VInt 0) = (VInt 0, Ok) \<and>
   bindField exampleLib [(''x'', [''5''])] ''query''
     (SField ''inner'' (TStruct [SField ''X'' (TBasic KInt NoCap) False True [(''query'', ''x'')]] NoCap)
        False False [])
     (VStruct [VInt 0]) = (VStruct [VInt 0], Ok)"
  using
    untagged_field [of "SField ''Inner''
        (TStruct [SField ''X'' (TBasic KInt NoCap) False True [(''query'', ''x'')]] NoCap)
        False True []" "''query''" "VStruct [VInt 0]"
        "TStruct [SField ''X'' (TBasic KInt NoCap) False True [(''query'', ''x'')]] NoCap"
        "VStruct [VInt 0]" exampleLib "[(''x'', [''5''])]"]
    untagged_field [of "SField ''Inner''
        (TStruct [SField ''X'' (TBasic KInt NoCap) False True [(''query'', ''x'')]]
           (BindUnmarshaler (\<lambda>s v. (v, None))))
        False True []" "''query''" "VStruct [VInt 0]"
        "TStruct [SField ''X'' (TBasic KInt NoCap) False True [(''query'', ''x'')]]
           (BindUnmarshaler (\<lambda>s v. (v, None)))"
        "VStruct [VInt 0]" exampleLib "[(''x'', [''5''])]"]
    untagged_field [of "SField ''N'' (TBasic KInt NoCap) False True []" "''query''" "VInt 0"
        "TBasic KInt NoCap" "VInt 0" exampleLib "[(''x'', [''5''])]"]
    untagged_field [of "SField ''inner''
        (TStruct [SField ''X'' (TBasic KInt NoCap) False True [(''query'', ''x'')]] NoCap)
        False False []" "''query''" "VStruct [VInt 0]"
        "TStruct [SField ''X'' (TBasic KInt NoCap) False True [(''query'', ''x'')]] NoCap"
        "VStruct [VInt 0]" exampleLib "[(''x'', [''5''])]"]
  by (simp add: walk_eval coerce_eval parse_eval)


text \<open>
  The claim C3 as stated fails for a struct type whose only capability is
  \<^verbatim>\<open>encoding.TextUnmarshaler\<close>: \<^verbatim>\<open>unmarshalFieldNonPtr\<close> finds the capability, and the
  walker still recurses into the untagged field and binds its tagged field \<open>X\<close>. It
  also fails for an untagged struct field without capability that is not exported: the
  walker does not recurse into it.
\<close>

theorem untagged_field_counterexample:
  "fst (unmarshalFieldNonPtr ''5''
          (TStruct [SField ''X'' (TBasic KInt NoCap) False True [(''query'', ''x'')]]
             (TextUnmarshaler (\<lambda>s v. (v, None))))
          (VStruct [VInt 0])) \<and>
   bindField exampleLib [(''x'', [''5''])] ''query''
     (SField ''Inner''
        (TStruct [SField ''X'' (TBasic KInt NoCap) False True [(''query'', ''x'')]]
           (TextUnmarshaler (\<lambda>s v. (v, None))))
        False True [])
     (VStruct [VInt 0]) = (VStruct [VInt 5], Ok) \<and>
   \<not> isBindUnmarshaler
       (TStruct [SField ''X'' (TBasic KInt NoCap) False True [(''query'', ''x'')]] NoCap) \<and>
   bindField exampleLib [(''x'', [''5''])] ''query''
     (SField ''inner''
        (TStruct [SField ''X'' (TBasic KInt NoCap) False True [(''query'', ''x'')]] NoCap)
        False False [])
     (VStruct [VInt 0]) = (VStruct [VInt 0], Ok)"
  by (simp add: walk_eval coerce_eval parse_eval)

section \<open>The field walker: embedded structs with a tag\<close>

lemma bindFields_append:
  "length vpre = length pre \<Longrightarrow>
   bindFields lib data tag (pre @ fs) (vpre @ vs) =
     (case bindFields lib data tag pre vpre of
        (vpre', Ok) \<Rightarrow> (case bindFields lib data tag fs vs of (vs', r) \<Rightarrow> (vpre' @ vs', r))
      | (vpre', r) \<Rightarrow> (vpre' @ vs, r))"
proof (induction pre arbitrary: vpre)
  case Nil
  then show ?case by (simp split: prod.splits)
next
  case (Cons f pre)
  then obtain fv vpre0 where v: "vpre = fv # vpre0" "length vpre0 = length pre"
    by (cases vpre) auto
  show ?case
    using Cons.IH [OF v(2)] v(1)
    by (simp split: prod.splits outcome.splits)
qed

lemma bindField_anonymous_tagged:
  assumes "fieldElem f fv = Some (t, x)" "exported f" "anonymous f" "Kind t = KStruct"
    "TagGet (ftag f) tag \<noteq> []"
  shows "bindField lib data tag f fv =
     (fv, Err (ErrorString ''query/form tags are not allowed with anonymous struct field''))"
  using assms by (subst bindField.simps) simp

text \<open>
  Claim C2, as the code has it. Let the value map be non-empty and let the target
  struct have an embedded field that can be set (it is exported and, if it is a
  pointer, not nil), is a struct and has a non-empty tag for the source kind. When the
  fields declared before it bind without error, the decode fails with the error
  \<^verbatim>\<open>query/form tags are not allowed with anonymous struct field\<close>, whatever the entries
  of the map; the earlier fields keep what was bound into them, the embedded field and
  the later fields are as before.
\<close>

theorem anonymous_struct_with_tag:
  assumes "data \<noteq> []"
    and "anonymous f" and "exported f" and "fieldElem f fv = Some (t, x)" and "Kind t = KStruct"
    and "TagGet (ftag f) tag \<noteq> []"
    and "length vpre = length pre"
    and "bindFields lib data tag pre vpre = (vpre', Ok)"
  shows "bindData lib (Some (TPtr (TStruct (pre @ f # post) c),
                             VPtr (Some (VStruct (vpre @ fv # vpost))))) data tag =
           (Some (TPtr (TStruct (pre @ f # post) c), VPtr (Some (VStruct (vpre' @ fv # vpost)))),
            Err (ErrorString ''query/form tags are not allowed with anonymous struct field''))"
  using assms(1) bindFields_append [OF assms(7), of lib data tag "f # post" "fv # vpost"] assms(8)
    bindField_anonymous_tagged [OF assms(4) assms(3) assms(2) assms(5) assms(6), of lib data]
  by simp

theorem anonymous_struct_with_tag_witness:
  "bindData exampleLib
     (Some (TPtr (TStruct [SField ''N'' (TBasic KInt NoCap) False True [(''query'', ''n'')],
                           SField ''Inner'' (TStruct [] NoCap) True True [(''query'', ''inner'')]]
                    NoCap),
            VPtr (Some (VStruct [VInt 0, VStruct []]))))
     [(''n'', [''4''])] ''query'' =
     (Some (TPtr (TStruct [SField ''N'' (TBasic KInt NoCap) False True [(''query'', ''n'')],
                           SField ''Inner'' (TStruct [] NoCap) True True [(''query'', ''inner'')]]
                    NoCap),
            VPtr (Some (VStruct [VInt 4, VStruct []]))),
      Err (ErrorString ''query/form tags are not allowed with anonymous struct field''))"
  using anonymous_struct_with_tag [of "[(''n'', [''4''])]"
      "SField ''Inner'' (TStruct [] NoCap) True True [(''query'', ''inner'')]" "VStruct []"
      "TStruct [] NoCap" "VStruct []" "''query''" "[VInt 0]"
      "[SField ''N'' (TBasic KInt NoCap) False True [(''query'', ''n'')]]" exampleLib "[VInt 4]"
      "[]" NoCap "[]"]
  by (simp add: walk_eval coerce_eval parse_eval)

text \<open>
  The claim C2 as stated fails on the empty value map, where the decode returns success
  before it looks at any field; for an embedded struct field that is not exported,
  which the walker skips before it looks at the tag; and when an earlier field fails to
  bind, where the decode returns the conversion error of that field.
\<close>

theorem anonymous_struct_with_tag_counterexample:
  "bindData exampleLib
     (Some (TPtr (TStruct [SField ''Inner'' (TStruct [] NoCap) True True [(''query'', ''inner'')]]
                    NoCap),
            VPtr (Some (VStruct [VStruct []]))))
     [] ''query'' =
     (Some (TPtr (TStruct [SField ''Inner'' (TStruct [] NoCap) True True [(''query'', ''inner'')]]
                    NoCap),
            VPtr (Some (VStruct [VStruct []]))), Ok) \<and>
   bindData exampleLib
     (Some (TPtr (TStruct [SField ''inner'' (TStruct [] NoCap) True False [(''query'', ''inner'')]]
                    NoCap),
            VPtr (Some (VStruct [VStruct []]))))
     [(''a'', [''1''])] ''query'' =
     (Some (TPtr (TStruct [SField ''inner'' (TStruct [] NoCap) True False [(''query'', ''inner'')]]
                    NoCap),
            VPtr (Some (VStruct [VStruct []]))), Ok) \<and>
   bindData exampleLib
     (Some (TPtr (TStruct [SField ''N'' (TBasic KInt NoCap) False True [(''query'', ''n'')],
                           SField ''Inner'' (TStruct [] NoCap) True True [(''query'', ''inner'')]]
                    NoCap),
            VPtr (Some (VStruct [VInt 0, VStruct []]))))
     [(''n'', [''x''])] ''query'' =
     (Some (TPtr (TStruct [SField ''N'' (TBasic KInt NoCap) False True [(''query'', ''n'')],
                           SField ''Inner'' (TStruct [] NoCap) True True [(''query'', ''inner'')]]
                    NoCap),
            VPtr (Some (VStruct [VInt 0, VStruct []]))),
      Err (NumError ''ParseInt'' ''x'' ErrSyntax))"
  by (simp add: walk_eval coerce_eval parse_eval)

section \<open>The first value of a matched entry\<close>

lemma of_error_no_panic: "of_error e \<noteq> Panic p"
  by (cases e) simp_all

lemma setIntField_no_index: "setIntField val b t v \<noteq> (w, Panic IndexOutOfRange)"
  by (auto simp: setIntField_def SetInt_def split: prod.splits option.splits kind.splits)

lemma setUintField_no_index: "setUintField val b t v \<noteq> (w, Panic IndexOutOfRange)"
  by (auto simp: setUintField_def SetUint_def split: prod.splits option.splits kind.splits)

lemma setBoolField_no_index: "setBoolField val t v \<noteq> (w, Panic IndexOutOfRange)"
  by (auto simp: setBoolField_def SetBool_def split: prod.splits option.splits)

lemma setFloatField_no_index: "setFloatField lib val b t v \<noteq> (w, Panic IndexOutOfRange)"
  by (auto simp: setFloatField_def SetFloat_def split: prod.splits option.splits)

lemma setScalar_no_index: "setScalar lib k val t v \<noteq> (w, Panic IndexOutOfRange)"
  by (simp add: setScalar_def setIntField_no_index setUintField_no_index setBoolField_no_index
      setFloatField_no_index SetString_def)

lemma unmarshalFieldNonPtr_no_index:
  "unmarshalFieldNonPtr val t v \<noteq> (ok, w, Panic IndexOutOfRange)"
  by (auto simp: unmarshalFieldNonPtr_def of_error_no_panic split: cap.splits prod.splits)

lemma unmarshalField_no_index:
  "unmarshalField k val t v \<noteq> (ok, w, Panic IndexOutOfRange)"
  by (auto simp: unmarshalField_def unmarshalFieldPtr_def unmarshalFieldNonPtr_no_index
      split: gtype.splits gval.splits prod.splits)

lemma setWithProperType_no_index:
  "setWithProperType lib k val t v \<noteq> (w, Panic IndexOutOfRange)"
proof (induction lib k val t v arbitrary: w rule: setWithProperType.induct)
  case (1 lib valueKind val t field)
  obtain ok field1 r where u: "unmarshalField valueKind val t field = (ok, field1, r)"
    by (cases "unmarshalField valueKind val t field") auto
  then have r: "r \<noteq> Panic IndexOutOfRange"
    using unmarshalField_no_index [of valueKind val t field] by auto
  show ?case
    using u r "1.IH" [OF u [symmetric]]
    by (subst setWithProperType.simps)
       (auto simp: setScalar_no_index split: gtype.splits gval.splits option.splits prod.splits)
qed

lemma setElems_no_index: "setElems lib k et vals \<noteq> (ws, Panic IndexOutOfRange)"
proof (induction vals arbitrary: ws)
  case Nil
  show ?case by simp
next
  case (Cons x xs)
  then show ?case
    by (auto simp: setWithProperType_no_index split: prod.splits outcome.splits panic.splits)
qed

lemma SetMapIndex_no_index: "SetMapIndex ok k x val \<noteq> (w, Panic IndexOutOfRange)"
  by (auto simp: SetMapIndex_def split: gval.splits option.splits)

lemma copyToMap_no_index:
  "\<forall>(k, v) \<in> set data. v \<noteq> [] \<Longrightarrow> copyToMap ok data val \<noteq> (w, Panic IndexOutOfRange)"
proof (induction data arbitrary: val)
  case Nil
  show ?case by simp
next
  case (Cons e data)
  obtain k v where e: "e = (k, v)" by (cases e)
  with Cons.prems obtain x xs where v: "v = x # xs"
    by (cases v) auto
  show ?case
    using Cons e v
    by (auto simp: index0_def SetMapIndex_no_index split: prod.splits outcome.splits panic.splits)
qed

lemma foldScan_in: "foldScan lib name data = Some vals \<Longrightarrow> vals \<in> snd ` set data"
  by (induction data) (auto split: if_splits)

lemma lookupInput_in: "lookupInput lib data name = Some vals \<Longrightarrow> vals \<in> snd ` set data"
proof (cases "map_of data name")
  case None
  assume "lookupInput lib data name = Some vals"
  with None show ?thesis
    by (simp add: lookupInput_def foldScan_in)
next
  case (Some a)
  assume "lookupInput lib data name = Some vals"
  with Some have "(name, vals) \<in> set data"
    by (simp add: lookupInput_def map_of_SomeD)
  then show ?thesis
    by force
qed

lemma lookupInput_nonempty:
  "\<forall>(k, v) \<in> set data. v \<noteq> [] \<Longrightarrow> lookupInput lib data name = Some vals \<Longrightarrow> vals \<noteq> []"
  using lookupInput_in by fastforce

lemma bindTagged_no_index:
  assumes "inputValue \<noteq> []"
  shows "bindTagged lib tk isElem inputValue t x \<noteq> (w, Panic IndexOutOfRange)"
proof -
  obtain v0 rest where v: "inputValue = v0 # rest"
    using assms by (cases inputValue) auto
  obtain ok field1 r where u: "unmarshalField tk v0 t x = (ok, field1, r)"
    by (cases "unmarshalField tk v0 t x") auto
  then have r: "r \<noteq> Panic IndexOutOfRange"
    using unmarshalField_no_index [of tk v0 t x] by auto
  show ?thesis
    using u r unfolding bindTagged_def v
    by (auto simp: index0_def setElems_no_index setWithProperType_no_index
        split: gtype.splits prod.splits outcome.splits panic.splits)
qed


lemma bindData_ptr_no_index:
  assumes "\<forall>(k, v) \<in> set data. v \<noteq> []"
    and "\<And>fs c vs ws. ty = TStruct fs c \<Longrightarrow> p = Some (VStruct vs) \<Longrightarrow> data \<noteq> [] \<Longrightarrow>
           bindFields lib data tag fs vs \<noteq> (ws, Panic IndexOutOfRange)"
  shows "bindData lib (Some (TPtr ty, VPtr p)) data tag \<noteq> (d, Panic IndexOutOfRange)"
proof (cases "data = []")
  case True
  then show ?thesis by simp
next
  case ne: False
  show ?thesis
  proof (cases ty)
    case (TMap ok c)
    with ne show ?thesis
      using copyToMap_no_index [OF assms(1)] by (auto split: prod.splits)
  next
    case (TStruct fs c)
    with ne assms(2) show ?thesis
      by (auto split: prod.splits option.splits gval.splits)
  qed (insert ne, auto)
qed


lemma bindField_no_index_step:
  assumes "\<forall>(k, v) \<in> set data. v \<noteq> []"
    and "\<And>t x d. fieldElem f fv = Some (t, x) \<Longrightarrow> exported f \<Longrightarrow> TagGet (ftag f) tag = [] \<Longrightarrow>
           \<not> isBindUnmarshaler t \<Longrightarrow> Kind t = KStruct \<Longrightarrow>
           bindData lib (Some (TPtr t, VPtr (Some x))) data tag \<noteq> (d, Panic IndexOutOfRange)"
  shows "bindField lib data tag f fv \<noteq> (w, Panic IndexOutOfRange)"
proof (cases "fieldElem f fv")
  case None
  then show ?thesis by (subst bindField.simps) simp
next
  case (Some a)
  obtain t x where a: "a = (t, x)" by (cases a)
  show ?thesis
  proof (cases "exported f \<and> TagGet (ftag f) tag = [] \<and> \<not> isBindUnmarshaler t \<and> Kind t = KStruct")
    case True
    obtain d r where b: "bindData lib (Some (TPtr t, VPtr (Some x))) data tag = (d, r)"
      by (cases "bindData lib (Some (TPtr t, VPtr (Some x))) data tag") auto
    with Some a True assms(2) [of t x d] have r: "r \<noteq> Panic IndexOutOfRange"
      by auto
    with Some a b True show ?thesis
      by (subst bindField.simps)
         (auto simp del: bindData.simps split: option.splits prod.splits gval.splits)
  next
    case False
    with Some a lookupInput_nonempty [OF assms(1)] show ?thesis
      by (subst bindField.simps)
         (auto simp del: bindData.simps simp: Let_def bindTagged_no_index
            split: option.splits prod.splits)
  qed
qed

lemma walk_no_index:
  assumes "\<forall>(k, v) \<in> set data. v \<noteq> []"
  shows "\<forall>d'. bindData lib d data tag \<noteq> (d', Panic IndexOutOfRange)"
    and "\<forall>ws. bindFields lib data tag fs vs \<noteq> (ws, Panic IndexOutOfRange)"
    and "\<forall>w. bindField lib data tag f fv \<noteq> (w, Panic IndexOutOfRange)"
  using assms
proof (induction lib d data tag and lib data tag fs vs and lib data tag f fv
    rule: bindData_bindFields_bindField.induct)
  case (2 lib ty p data tag)
  have "bindFields lib data tag fs vs \<noteq> (ws, Panic IndexOutOfRange)"
    if "ty = TStruct fs c" "p = Some (VStruct vs)" "data \<noteq> []" for fs c vs ws
    using "2.IH" [of fs c "VStruct vs" vs] that "2.prems" by simp
  then show ?case
    using bindData_ptr_no_index [OF "2.prems", of ty p lib tag] by simp
next
  case (6 lib data tag f fs fv vs)
  obtain fv' r where bf: "bindField lib data tag f fv = (fv', r)"
    by (cases "bindField lib data tag f fv") auto
  with "6.IH"(1) "6.prems" have r: "r \<noteq> Panic IndexOutOfRange"
    by auto
  show ?case
  proof (cases "r = Ok")
    case True
    with bf "6.IH"(2) [of fv' r] "6.prems"
    have "\<forall>ws. bindFields lib data tag fs vs \<noteq> (ws, Panic IndexOutOfRange)"
      by simp
    with bf True show ?thesis
      by (auto split: prod.splits)
  next
    case False
    with bf r show ?thesis
      by (cases r) simp_all
  qed
next
  case (7 lib data tag f fv)
  have "bindData lib (Some (TPtr t, VPtr (Some x))) data tag \<noteq> (d, Panic IndexOutOfRange)"
    if "fieldElem f fv = Some (t, x)" "exported f" "TagGet (ftag f) tag = []"
      "\<not> isBindUnmarshaler t" "Kind t = KStruct" for t x d
    using "7.IH" [of "(t, x)" t x "[]"] that "7.prems" by simp
  then show ?case
    using bindField_no_index_step [OF "7.prems", of f fv tag lib] by simp
qed simp_all


text \<open>
  Claim C10. When every key of the value map has a non-empty list of values, no call
  of \<^verbatim>\<open>bindData\<close> ends in an index-out-of-range panic: the map-copy loop reads the
  first value of entries of the map, and every list that the lookup of a tag name
  returns is the list of an entry, so that its first element exists.
\<close>

theorem first_value_in_bounds:
  assumes "\<forall>(k, v) \<in> set data. v \<noteq> []"
  shows "snd (bindData lib destination data tag) \<noteq> Panic IndexOutOfRange \<and>
         snd (copyToMap ok data val) \<noteq> Panic IndexOutOfRange \<and>
         (\<forall>name vals. lookupInput lib data name = Some vals \<longrightarrow> index0 vals \<noteq> None)"
proof (intro conjI allI impI)
  show "snd (bindData lib destination data tag) \<noteq> Panic IndexOutOfRange"
    using walk_no_index(1) [OF assms, of lib destination tag]
    by (cases "bindData lib destination data tag") auto
  show "snd (copyToMap ok data val) \<noteq> Panic IndexOutOfRange"
    using copyToMap_no_index [OF assms, of ok val]
    by (cases "copyToMap ok data val") auto
  show "index0 vals \<noteq> None" if "lookupInput lib data name = Some vals" for name vals
    using lookupInput_nonempty [OF assms that] by (cases vals) (simp_all add: index0_def)
qed

theorem first_value_in_bounds_witness:
  "snd (bindData exampleLib
          (Some (TPtr (TStruct [SField ''IDs'' (TSlice (TBasic KInt NoCap) NoCap) False True
                                  [(''query'', ''ids'')]] NoCap),
                 VPtr (Some (VStruct [VSlice []]))))
          [(''ids'', [''1'', ''2'']), (''n'', [''x''])] ''query'') \<noteq> Panic IndexOutOfRange \<and>
   snd (copyToMap True [(''ids'', [''1'', ''2'']), (''n'', [''x''])] (VMap (Some []))) \<noteq>
     Panic IndexOutOfRange \<and>
   lookupInput exampleLib [(''ids'', [''1'', ''2'']), (''n'', [''x''])] ''ids'' = Some [''1'', ''2''] \<and>
   index0 [''1'', ''2''] \<noteq> None"
proof -
  have h: "\<forall>(k, v) \<in> set [(''ids'', [''1'', ''2'']), (''n'', [''x''])]. v \<noteq> []"
    by simp
  have l: "lookupInput exampleLib [(''ids'', [''1'', ''2'']), (''n'', [''x''])] ''ids'' =
      Some [''1'', ''2'']"
    by (simp add: lookupInput_def)
  show ?thesis
    using l first_value_in_bounds [OF h, of exampleLib
      "Some (TPtr (TStruct [SField ''IDs'' (TSlice (TBasic KInt NoCap) NoCap) False True
                                  [(''query'', ''ids'')]] NoCap),
                 VPtr (Some (VStruct [VSlice []])))" "''query''" True "VMap (Some [])"]
    by (simp del: bindData.simps copyToMap.simps)
qed

text \<open>
  Without the invariant the branch is taken: an entry with an empty list of values
  under the key of a tagged field makes the read of the first value panic.
\<close>

lemma first_value_out_of_bounds_example:
  "snd (bindData exampleLib
          (Some (TPtr (TStruct [SField ''IDs'' (TSlice (TBasic KInt NoCap) NoCap) False True
                                  [(''query'', ''ids'')]] NoCap),
                 VPtr (Some (VStruct [VSlice []]))))
          [(''ids'', [])] ''query'') = Panic IndexOutOfRange \<and>
   snd (bindData exampleLib (Some (TPtr (TMap True NoCap), VPtr (Some (VMap (Some [])))))
          [(''ids'', [])] ''form'') = Panic IndexOutOfRange"
  by (simp add: walk_eval)

section \<open>The combined bind\<close>

lemma plainType_capOf: "plainType t \<Longrightarrow> capOf t = NoCap"
  by (cases t) (auto split: cap.splits)

lemma noDecoder_capOf: "noDecoder t \<Longrightarrow> capOf t = NoCap"
  by (cases t) (auto split: cap.splits)

lemma setWithProperType_unknown:
  "noDecoder t \<Longrightarrow> \<not> plainType t \<Longrightarrow> snd
      (setWithProperType lib (Kind t) x t v) \<noteq> Ok"
proof (induction t arbitrary: v rule: plainType.induct)
  case (1 k c)
  then show ?case by (cases c) simp_all
next
  case (2 t)
  show ?case
  proof (cases v)
    case (VPtr p)
    from "2.prems" have "snd (setWithProperType lib (Kind t) x t
        (case p of None \<Rightarrow> zero t | Some y \<Rightarrow> y)) \<noteq> Ok"
      using "2.IH" by simp
    with VPtr show ?thesis
      by (cases "setWithProperType lib (Kind t) x t
          (case p of None \<Rightarrow> zero t | Some y \<Rightarrow> y)")
         (simp add: setWithProperType_ptr)
  qed (simp_all add: setWithProperType.simps [of _ KPtr] unmarshalField_def unmarshalFieldPtr_def)
next
  case (3 t c)
  then show ?case
    by (cases c) (simp_all add: setWithProperType_NoCap setScalar_def)
next
  case (4 fs c)
  then show ?case
    by (cases c) (simp_all add: setWithProperType_NoCap setScalar_def)
next
  case (5 ok c)
  then show ?case
    by (cases c) (simp_all add: setWithProperType_NoCap setScalar_def)
qed

lemma unmarshalField_noDecoder:
  "noDecoder t \<Longrightarrow> unmarshalField (Kind t) x t v =
      (ok, v1, r) \<Longrightarrow> \<not> ok"
  by (cases t)
     (auto simp: unmarshalField_def unmarshalFieldPtr_def unmarshalFieldNonPtr_def noDecoder_capOf
       Let_def split: cap.splits gval.splits prod.splits)

lemma bindTagged_unknown:
  assumes "noDecoder t" and "\<not> plainType t" and "Kind t \<noteq> KSlice"
  shows "snd (bindTagged lib (Kind t) False vals t v) \<noteq> Ok"
proof (cases vals)
  case Nil
  then show ?thesis by (simp add: bindTagged_def index0_def)
next
  case (Cons v0 rest)
  obtain ok v1 r where u: "unmarshalField (Kind t) v0 t v = (ok, v1, r)"
    by (cases "unmarshalField (Kind t) v0 t v") auto
  with assms(1) have "\<not> ok"
    by (rule unmarshalField_noDecoder)
  with Cons u assms(3) setWithProperType_unknown [OF assms(1,2), of lib v0 v1] show ?thesis
    by (simp add: bindTagged_def index0_def)
qed

lemma setIntField_fresh:
  "setIntField x b t v = (w, Ok) \<Longrightarrow> setIntField x b t v' = (w, Ok)"
  by (auto simp: setIntField_def SetInt_def split: prod.splits option.splits kind.splits if_splits)

lemma setUintField_fresh:
  "setUintField x b t v = (w, Ok) \<Longrightarrow> setUintField x b t v' = (w, Ok)"
  by (auto simp: setUintField_def SetUint_def split: prod.splits option.splits kind.splits if_splits)

lemma setBoolField_fresh:
  "setBoolField x t v = (w, Ok) \<Longrightarrow> setBoolField x t v' = (w, Ok)"
  by (auto simp: setBoolField_def SetBool_def split: prod.splits option.splits if_splits)

lemma setFloatField_fresh:
  "setFloatField lib x b t v = (w, Ok) \<Longrightarrow> setFloatField lib x b t v' = (w, Ok)"
  by (auto simp: setFloatField_def SetFloat_def split: prod.splits option.splits if_splits)

lemma SetString_fresh:
  "SetString x t v = (w, Ok) \<Longrightarrow> SetString x t v' = (w, Ok)"
  by (auto simp: SetString_def split: if_splits)

lemma setScalar_fresh:
  "setScalar lib k x t v = (w, Ok) \<Longrightarrow> setScalar lib k x t v' = (w, Ok)"
  unfolding setScalar_def
  by (auto split: if_splits
      intro: setIntField_fresh setUintField_fresh setBoolField_fresh setFloatField_fresh
        SetString_fresh)

lemma setWithProperType_fresh:
  "plainType t \<Longrightarrow> setWithProperType lib (Kind t) x t v = (w, Ok) \<Longrightarrow>
   setWithProperType lib (Kind t) x t (zero t) = (w, Ok)"
proof (induction t arbitrary: v w rule: plainType.induct)
  case (1 k c)
  then have c: "c = NoCap"
    by (cases c) simp_all
  with "1.prems"(2) show ?case
    by (simp add: setWithProperType_NoCap) (rule setScalar_fresh)
next
  case (2 t)
  show ?case
  proof (cases v)
    case (VPtr p)
    with "2.prems"(2) obtain e where
      e: "setWithProperType lib (Kind t) x t
          (case p of None \<Rightarrow> zero t | Some y \<Rightarrow> y) = (e, Ok)"
      and w: "w = VPtr (Some e)"
      by (auto simp: setWithProperType_ptr split: prod.splits)
    from "2.prems"(1) have "plainType t" by simp
    from "2.IH" [OF this e] w show ?thesis
      by (simp add: setWithProperType_ptr)
  qed (use "2.prems"(2) in \<open>simp_all add: setWithProperType.simps [of _ KPtr]
        unmarshalField_def unmarshalFieldPtr_def\<close>)
qed simp_all


lemma bindTagged_plain:
  assumes "plainType t"
  shows "bindTagged lib (Kind t) False (v0 # rest) t v = setWithProperType lib (Kind t) v0 t v"
proof (cases t)
  case (TBasic k c)
  with assms have "c = NoCap" by (cases c) simp_all
  with TBasic show ?thesis
    by (simp add: bindTagged_def index0_def unmarshalField_def unmarshalFieldNonPtr_def)
next
  case (TPtr et)
  with assms have cap: "capOf et = NoCap"
    by (simp add: plainType_capOf)
  show ?thesis
  proof (cases v)
    case (VPtr p)
    with TPtr cap show ?thesis
      by (simp add: bindTagged_def index0_def unmarshalField_def unmarshalFieldPtr_def
          unmarshalFieldNonPtr_def setWithProperType_ptr)
  qed (use TPtr in \<open>simp_all add: bindTagged_def index0_def setWithProperType.simps
      [of _ KPtr]
        unmarshalField_def unmarshalFieldPtr_def\<close>)
qed (use assms in simp_all)

lemma bindTagged_slice_fresh:
  assumes "bindTagged lib KSlice False vals (TSlice et NoCap) v = (w, Ok)"
  shows "bindTagged lib KSlice False vals (TSlice et NoCap) v' = (w, Ok)"
  using assms
  by (auto simp: bindTagged_def index0_def unmarshalField_def unmarshalFieldNonPtr_def
      split: list.splits prod.splits outcome.splits if_splits)

lemma bindField_fresh:
  assumes "exported f" and "\<not> isElemOf f" and "noDecoder (ftype f)"
    and "TagGet (ftag f) tag \<noteq> []"
    and "lookupInput lib data (TagGet (ftag f) tag) = Some vals"
    and "bindField lib data tag f v = (w, Ok)"
  shows "bindField lib data tag f (zero (ftype f)) = (w, Ok)"
proof -
  have e: "fieldElem f u = Some (ftype f, u)" for u
    using assms(2) by (simp add: fieldElem_def)
  have k: "\<not> (anonymous f \<and> Kind (ftype f) = KStruct)"
  proof
    assume "anonymous f \<and> Kind (ftype f) = KStruct"
    then have "snd (bindField lib data tag f v) \<noteq> Ok"
      using assms(1,4) by (subst bindField.simps) (simp add: e)
    with assms(6) show False by simp
  qed
  have b: "bindField lib data tag f u = bindInput lib f vals (ftype f) u" for u
    using bindField_tagged [OF e assms(1) refl assms(4), where lib = lib and data = data]
      k assms(5) by simp
  from assms(6) have t: "bindTagged lib (Kind (ftype f)) False vals (ftype f) v = (w, Ok)"
    using assms(2) by (auto simp: b bindInput_def fieldStore_def split: prod.splits)
  have "bindTagged lib (Kind (ftype f)) False vals (ftype f) (zero (ftype f)) = (w, Ok)"
  proof (cases "plainType (ftype f)")
    case True
    from t obtain v0 rest where vals: "vals = v0 # rest"
      by (cases vals) (simp_all add: bindTagged_def index0_def)
    from t show ?thesis
      unfolding vals bindTagged_plain [OF True] by (rule setWithProperType_fresh [OF True])
  next
    case False
    show ?thesis
    proof (cases "Kind (ftype f) = KSlice")
      case True
      with assms(3) obtain et where "ftype f = TSlice et NoCap"
        by (cases "ftype f") (auto split: cap.splits)
      with t show ?thesis
        using bindTagged_slice_fresh [of lib vals et v w "VSlice []"] by simp
    next
      case notslice: False
      from bindTagged_unknown [OF assms(3) False notslice, of lib vals v] t show ?thesis
        by simp
    qed
  qed
  then show ?thesis
    using assms(2) by (simp add: b bindInput_def fieldStore_def)
qed

lemma bindFields_nth:
  "bindFields lib data tag fs vs = (ws, Ok) \<Longrightarrow> i < length fs \<Longrightarrow>
   bindField lib data tag (fs ! i) (vs ! i) = (ws ! i, Ok)"
proof (induction fs arbitrary: vs ws i)
  case Nil
  then show ?case by simp
next
  case (Cons f fs)
  from Cons.prems(1) obtain fv vs' where vs: "vs = fv # vs'"
    by (cases vs) auto
  obtain fv' r where bf: "bindField lib data tag f fv = (fv', r)"
    by (cases "bindField lib data tag f fv") auto
  with Cons.prems(1) vs have r: "r = Ok"
    by (cases r) (auto split: prod.splits)
  with Cons.prems(1) vs bf obtain ws' where
    ws: "bindFields lib data tag fs vs' = (ws', Ok)" "ws = fv' # ws'"
    by (auto split: prod.splits)
  show ?case
  proof (cases i)
    case 0
    with vs bf r ws show ?thesis by simp
  next
    case (Suc j)
    with Cons.prems(2) have "j < length fs" by simp
    from Cons.IH [OF ws(1) this] Suc vs ws show ?thesis by simp
  qed
qed

lemma bindData_struct_inv:
  assumes "bindData lib d data tag = (Some (TPtr (TStruct fs c), VPtr (Some (VStruct ws))), Ok)"
    and "data \<noteq> []"
  shows "\<exists>vs. bindFields lib data tag fs vs = (ws, Ok)"
proof (cases d)
  case None
  with assms show ?thesis by simp
next
  case (Some a)
  obtain dt dv where a: "a = (dt, dv)" by (cases a)
  show ?thesis
  proof (cases "\<exists>ty p. dt = TPtr ty \<and> dv = VPtr p")
    case True
    then obtain ty p where d: "dt = TPtr ty" "dv = VPtr p" by blast
    with assms Some a have ty: "ty = TStruct fs c"
      by (auto split: if_splits gtype.splits prod.splits option.splits gval.splits)
    with assms Some a d show ?thesis
      by (auto split: if_splits prod.splits option.splits gval.splits)
  next
    case False
    with assms Some a show ?thesis
      by (cases dt; cases dv) auto
  qed
qed


lemma fieldElem_type:
  "fieldElem f v = Some (t, x) \<Longrightarrow> fieldElem f v' = Some
      (t', x') \<Longrightarrow> t' = t"
  by (auto simp: fieldElem_def split: if_splits gtype.splits gval.splits option.splits)

lemma fieldElem_fieldStore:
  "fieldElem f v = Some (t, x) \<Longrightarrow> fieldElem f (fieldStore f x') = Some (t, x')"
  by (auto simp: fieldElem_def fieldStore_def split: if_splits gtype.splits gval.splits
      option.splits)

lemma bindField_struct_inv:
  assumes "bindField lib data tag f fv = (w, Ok)" and "data \<noteq> []"
    and "fieldElem f w = Some (TStruct fs' c, VStruct ws')"
    and "exported f" and "TagGet (ftag f) tag = []"
    and "\<not> isBindUnmarshaler (TStruct fs' c)"
  shows "\<exists>vs'. bindFields lib data tag fs' vs' = (ws', Ok)"
proof (cases "fieldElem f fv")
  case None
  then have "bindField lib data tag f fv = (fv, Ok)"
    by (subst bindField.simps) simp
  with assms(1,3) None show ?thesis by simp
next
  case (Some a)
  obtain t x where a: "a = (t, x)" by (cases a)
  with Some have e: "fieldElem f fv = Some (t, x)" by simp
  from fieldElem_type [OF assms(3) e] have t: "t = TStruct fs' c" .
  obtain x' r where b: "bindData lib (Some (TPtr (TStruct fs' c), VPtr (Some x))) data tag =
      (Some (TPtr (TStruct fs' c), VPtr (Some x')), r)"
    and f: "bindField lib data tag f fv = (fieldStore f x', r)"
    using bindField_untagged_struct [OF assms(5) assms(4) e [unfolded t] _ assms(6), of lib data]
    by auto
  from f assms(1) have w: "w = fieldStore f x'" and r: "r = Ok"
    by simp_all
  from fieldElem_fieldStore [OF e, of x'] assms(3) have "x' = VStruct ws'"
    by (simp add: w)
  with b r show ?thesis
    using bindData_struct_inv [OF _ assms(2)] by blast
qed

lemma structAt_bound:
  "bindFields lib data tag fs vs = (ws, Ok) \<Longrightarrow> data \<noteq> [] \<Longrightarrow>
   structAt tag path fs ws = Some (fs', ws') \<Longrightarrow>
   \<exists>vs'. bindFields lib data tag fs' vs' = (ws', Ok)"
proof (induction path arbitrary: fs vs ws)
  case Nil
  then show ?case by auto
next
  case (Cons i path)
  from Cons.prems(3) obtain fs1 c ws1 where
    s: "i < length fs" "fieldElem (fs ! i) (ws ! i) = Some (TStruct fs1 c, VStruct ws1)"
      "exported (fs ! i)" "TagGet (ftag (fs ! i)) tag = []" "\<not> isBindUnmarshaler
          (TStruct fs1 c)"
      "structAt tag path fs1 ws1 = Some (fs', ws')"
    by (auto split: if_splits gtype.splits gval.splits option.splits)
  from Cons.prems(1) s(1) have "bindField lib data tag (fs ! i) (vs ! i) = (ws ! i, Ok)"
    by (rule bindFields_nth)
  from bindField_struct_inv [OF this Cons.prems(2) s(2) s(3) s(4) s(5)]
  obtain vs1 where "bindFields lib data tag fs1 vs1 = (ws1, Ok)" ..
  from Cons.IH [OF this Cons.prems(2) s(6)] show ?case .
qed

lemma lookupInput_Nil: "lookupInput lib [] name = None"
  by (simp add: lookupInput_def)

lemma BindQueryParams_Ok:
  "BindQueryParams lib req v = (d, Ok) \<Longrightarrow> bindData lib v
      (QueryParams req) ''query'' = (d, Ok)"
  by (auto simp: BindQueryParams_def split: prod.splits outcome.splits)

lemma Bind_Ok:
  "Bind lib req v = (d, Ok) \<Longrightarrow> \<exists>v'. BindQueryParams lib req v' = (d, Ok)"
  by (auto simp: Bind_def Let_def split: if_splits prod.splits outcome.splits)

text \<open>
  Claim C1, as the code has it. \<^verbatim>\<open>Bind\<close> runs the body bind exactly when the method is
  POST, PUT or PATCH. When the body bind fails, \<^verbatim>\<open>Bind\<close> returns that failure and binds
  no query parameter; otherwise, and for every other method, it runs the query bind on
  the same target and returns its result. So whenever \<^verbatim>\<open>Bind\<close> succeeds on a struct, a
  field that the query supplies holds what the query bind writes into a zero field, the
  value from the query, whatever the body bind had stored, provided that the query
  bind reaches the field and coerces into it: the field can be set, has a query tag,
  is not an embedded pointer, has no custom decoder on its type or at the end of its
  chain of pointers, and lies in the target struct or in a struct nested in it through
  fields that can be set, have no query tag, are structs or embedded pointers, not nil,
  to structs, and do not implement \<^verbatim>\<open>BindUnmarshaler\<close>.
\<close>

theorem Bind_body_then_query:
  "(Method req \<notin> {MethodPost, MethodPut, MethodPatch} \<longrightarrow>
      Bind lib req v = BindQueryParams lib req v) \<and>
   (Method req \<in> {MethodPost, MethodPut, MethodPatch} \<longrightarrow>
      (case BindBody lib req v of
         (v', Ok) \<Rightarrow> Bind lib req v = BindQueryParams lib req v'
       | (v', r) \<Rightarrow> Bind lib req v = (v', r))) \<and>
   (Bind lib req v = (Some (TPtr (TStruct fs c), VPtr (Some (VStruct ws))), Ok) \<and>
    structAt ''query'' path fs ws = Some (fs', ws') \<and>
    i < length fs' \<and> exported (fs' ! i) \<and> \<not> isElemOf (fs' ! i) \<and>
    noDecoder (ftype (fs' ! i)) \<and>
    TagGet (ftag (fs' ! i)) ''query'' \<noteq> [] \<and>
    lookupInput lib (QueryParams req) (TagGet (ftag
        (fs' ! i)) ''query'') = Some vals \<longrightarrow>
      bindField lib (QueryParams req) ''query'' (fs' ! i) (zero (ftype (fs' ! i))) =
        (ws' ! i, Ok))"
proof (intro conjI impI)
  assume "Method req \<notin> {MethodPost, MethodPut, MethodPatch}"
  then show "Bind lib req v = BindQueryParams lib req v"
    by (simp add: Bind_def)
next
  assume "Method req \<in> {MethodPost, MethodPut, MethodPatch}"
  then show "case BindBody lib req v of
         (v', Ok) \<Rightarrow> Bind lib req v = BindQueryParams lib req v'
       | (v', r) \<Rightarrow> Bind lib req v = (v', r)"
    by (auto simp: Bind_def Let_def split: prod.splits outcome.splits)
next
  assume a: "Bind lib req v = (Some (TPtr (TStruct fs c), VPtr (Some (VStruct ws))), Ok) \<and>
    structAt ''query'' path fs ws = Some (fs', ws') \<and>
    i < length fs' \<and> exported (fs' ! i) \<and> \<not> isElemOf (fs' ! i) \<and>
    noDecoder (ftype (fs' ! i)) \<and>
    TagGet (ftag (fs' ! i)) ''query'' \<noteq> [] \<and>
    lookupInput lib (QueryParams req) (TagGet (ftag (fs' ! i)) ''query'') = Some vals"
  then have ne: "QueryParams req \<noteq> []"
    using lookupInput_Nil by fastforce
  from a obtain v' where
    "bindData lib v' (QueryParams req) ''query'' =
       (Some (TPtr (TStruct fs c), VPtr (Some (VStruct ws))), Ok)"
    using Bind_Ok BindQueryParams_Ok by blast
  then obtain vs where "bindFields lib (QueryParams req) ''query'' fs vs = (ws, Ok)"
    using bindData_struct_inv ne by blast
  with a obtain vs' where "bindFields lib (QueryParams req) ''query'' fs' vs' = (ws', Ok)"
    using structAt_bound [OF _ ne] by blast
  with a have "bindField lib (QueryParams req) ''query'' (fs' ! i) (vs' ! i) = (ws' ! i, Ok)"
    by (simp add: bindFields_nth)
  with a show "bindField lib (QueryParams req) ''query'' (fs' ! i) (zero (ftype (fs' ! i))) =
      (ws' ! i, Ok)"
    using bindField_fresh by blast
qed

theorem Bind_body_then_query_witness:
  "BindBody
     (decodingJSON (Some (TPtr (TStruct [SField ''Status'' (TBasic KString NoCap) False True
         [(''query'', ''status'')]] NoCap),
            VPtr (Some (VStruct [VString ''pending''])))))
     (jsonRequest ''PUT'' ''{Status: pending}'' [(''status'', [''done''])])
     (Some (TPtr (TStruct [SField ''Status'' (TBasic KString NoCap) False True
         [(''query'', ''status'')]] NoCap),
            VPtr (Some (VStruct [VString []])))) =
     (Some (TPtr (TStruct [SField ''Status'' (TBasic KString NoCap) False True
         [(''query'', ''status'')]] NoCap),
            VPtr (Some (VStruct [VString ''pending'']))), Ok) \<and>
   Bind
     (decodingJSON (Some (TPtr (TStruct [SField ''Status'' (TBasic KString NoCap) False True
         [(''query'', ''status'')]] NoCap),
            VPtr (Some (VStruct [VString ''pending''])))))
     (jsonRequest ''PUT'' ''{Status: pending}'' [(''status'', [''done''])])
     (Some (TPtr (TStruct [SField ''Status'' (TBasic KString NoCap) False True
         [(''query'', ''status'')]] NoCap),
            VPtr (Some (VStruct [VString []])))) =
     (Some (TPtr (TStruct [SField ''Status'' (TBasic KString NoCap) False True
         [(''query'', ''status'')]] NoCap),
            VPtr (Some (VStruct [VString ''done'']))), Ok) \<and>
   bindField
     (decodingJSON (Some (TPtr (TStruct [SField ''Status'' (TBasic KString NoCap) False True
         [(''query'', ''status'')]] NoCap),
            VPtr (Some (VStruct [VString ''pending''])))))
     [(''status'', [''done''])] ''query''
     (SField ''Status'' (TBasic KString NoCap) False True [(''query'', ''status'')])
     (VString []) = (VString ''done'', Ok) \<and>
   Bind
     (decodingJSON (Some (TPtr (TStruct [SField ''Filter'' (TStruct [SField ''Status''
         (TBasic KString NoCap) False True
                 [(''query'', ''status'')]] NoCap) True True []] NoCap),
            VPtr (Some (VStruct [VStruct [VString ''pending'']])))))
     (jsonRequest ''PATCH'' ''{Status: pending}'' [(''status'', [''done''])])
     (Some (TPtr (TStruct [SField ''Filter'' (TStruct [SField ''Status''
         (TBasic KString NoCap) False True
                 [(''query'', ''status'')]] NoCap) True True []] NoCap),
            VPtr (Some (VStruct [VStruct [VString []]])))) =
     (Some (TPtr (TStruct [SField ''Filter'' (TStruct [SField ''Status''
         (TBasic KString NoCap) False True
                 [(''query'', ''status'')]] NoCap) True True []] NoCap),
            VPtr (Some (VStruct [VStruct [VString ''done'']]))), Ok) \<and>
   Bind exampleLib (jsonRequest ''GET'' ''{Status: pending}'' [(''status'', [''done''])])
     (Some (TPtr (TStruct [SField ''Status'' (TBasic KString NoCap) False True
         [(''query'', ''status'')]] NoCap),
            VPtr (Some (VStruct [VString []])))) =
   BindQueryParams exampleLib (jsonRequest ''GET'' ''{Status: pending}'' [(''status'', [''done''])])
     (Some (TPtr (TStruct [SField ''Status'' (TBasic KString NoCap) False True
         [(''query'', ''status'')]] NoCap),
            VPtr (Some (VStruct [VString []]))))"
  using Bind_body_then_query [where
     req = "jsonRequest ''GET'' ''{Status: pending}'' [(''status'', [''done''])]"
     and lib = exampleLib
     and v = "Some (TPtr (TStruct [SField ''Status'' (TBasic KString NoCap) False True
         [(''query'', ''status'')]] NoCap),
            VPtr (Some (VStruct [VString []])))"]
   Bind_body_then_query [where
     req = "jsonRequest ''PUT'' ''{Status: pending}'' [(''status'', [''done''])]"
     and lib = "decodingJSON (Some (TPtr (TStruct [SField ''Status''
         (TBasic KString NoCap) False True [(''query'', ''status'')]] NoCap),
            VPtr (Some (VStruct [VString ''pending'']))))"
     and v = "Some (TPtr (TStruct [SField ''Status'' (TBasic KString NoCap) False True
         [(''query'', ''status'')]] NoCap),
            VPtr (Some (VStruct [VString []])))"
     and fs = "[SField ''Status'' (TBasic KString NoCap) False True [(''query'', ''status'')]]"
     and c = NoCap and ws = "[VString ''done'']" and path = "[]"
     and fs' = "[SField ''Status'' (TBasic KString NoCap) False True [(''query'', ''status'')]]"
     and ws' = "[VString ''done'']" and i = 0 and vals = "[''done'']"]
   Bind_body_then_query [where
     req = "jsonRequest ''PATCH'' ''{Status: pending}'' [(''status'', [''done''])]"
     and lib = "decodingJSON (Some (TPtr (TStruct [SField ''Filter'' (TStruct
         [SField ''Status'' (TBasic KString NoCap) False True
                 [(''query'', ''status'')]] NoCap) True True []] NoCap),
            VPtr (Some (VStruct [VStruct [VString ''pending'']]))))"
     and v = "Some (TPtr (TStruct [SField ''Filter'' (TStruct [SField ''Status''
         (TBasic KString NoCap) False True
                 [(''query'', ''status'')]] NoCap) True True []] NoCap),
            VPtr (Some (VStruct [VStruct [VString []]])))"
     and fs = "[SField ''Filter'' (TStruct [SField ''Status'' (TBasic KString NoCap) False True
                 [(''query'', ''status'')]] NoCap) True True []]"
     and c = NoCap and ws = "[VStruct [VString ''done'']]" and path = "[0]"
     and fs' = "[SField ''Status'' (TBasic KString NoCap) False True [(''query'', ''status'')]]"
     and ws' = "[VString ''done'']" and i = 0 and vals = "[''done'']"]
  by (simp add: dispatch_eval decodingJSON_def jsonRequest_def exampleLib_def walk_eval
      coerce_eval)

text \<open>
  The claim C1 as stated fails in these cases, in this order. The body bind fails: a
  POST request with a content type that the binder does not support returns the error
  of the body bind, and the field \<open>Status\<close> keeps its value although the query has
  \<open>status=done\<close>; the query bind alone would have set it. In each of the other cases
  the body has set a field, the query has the key of its tag, and the field holds the
  value of the body after \<^verbatim>\<open>Bind\<close>. The field lies in a struct that the walker does not
  recurse into: one that implements \<^verbatim>\<open>BindUnmarshaler\<close>, one that has a query tag of its
  own, one behind a pointer that is not embedded, one embedded with a type that is
  not exported. The field is not exported and was filled by the \<^verbatim>\<open>UnmarshalJSON\<close> of
  its struct. The field has a custom decoder, which appends to what the body left.
  The field is an embedded pointer to an integer, on which the walker panics. The
  query bind fails on an earlier field.
\<close>

theorem Bind_body_then_query_counterexample:
  "Bind exampleLib
     \<lparr>Method = ''POST'', ContentLength = 5, ContentType = ''text/plain'',
      Body = ''hello'', QueryParams = [(''status'', [''done''])], FormParams = ([], None)\<rparr>
     (Some (TPtr (TStruct [SField ''Status'' (TBasic KString NoCap) False True
                             [(''query'', ''status'')]] NoCap),
            VPtr (Some (VStruct [VString []])))) =
     (Some (TPtr (TStruct [SField ''Status'' (TBasic KString NoCap) False True
                             [(''query'', ''status'')]] NoCap),
            VPtr (Some (VStruct [VString []]))), Err ErrUnsupportedMediaType) \<and>
   BindQueryParams exampleLib
     \<lparr>Method = ''POST'', ContentLength = 5, ContentType = ''text/plain'',
      Body = ''hello'', QueryParams = [(''status'', [''done''])], FormParams = ([], None)\<rparr>
     (Some (TPtr (TStruct [SField ''Status'' (TBasic KString NoCap) False True
                             [(''query'', ''status'')]] NoCap),
            VPtr (Some (VStruct [VString []])))) =
     (Some (TPtr (TStruct [SField ''Status'' (TBasic KString NoCap) False True
                             [(''query'', ''status'')]] NoCap),
            VPtr (Some (VStruct [VString ''done'']))), Ok) \<and>
   Bind
     (decodingJSON
        (Some (TPtr (TStruct [SField ''Inner''
                  (TStruct [SField ''X'' (TBasic KInt NoCap) False True [(''query'', ''x'')]]
                     (BindUnmarshaler (\<lambda>s v. (v, None)))) False True []] NoCap),
               VPtr (Some (VStruct [VStruct [VInt 1]])))))
     (jsonRequest ''PUT'' ''{Inner: {X: 1}}'' [(''x'', [''2''])])
     (Some (TPtr (TStruct [SField ''Inner''
               (TStruct [SField ''X'' (TBasic KInt NoCap) False True [(''query'', ''x'')]]
                  (BindUnmarshaler (\<lambda>s v. (v, None)))) False True []] NoCap),
            VPtr (Some (VStruct [VStruct [VInt 0]])))) =
     (Some (TPtr (TStruct [SField ''Inner''
               (TStruct [SField ''X'' (TBasic KInt NoCap) False True [(''query'', ''x'')]]
                  (BindUnmarshaler (\<lambda>s v. (v, None)))) False True []] NoCap),
            VPtr (Some (VStruct [VStruct [VInt 1]]))), Ok) \<and>
   Bind
     (decodingJSON
        (Some (TPtr (TStruct [SField ''Inner'' (TStruct [SField ''X''
            (TBasic KInt NoCap) False True [(''query'', ''x'')]] NoCap)
                  False True [(''query'', ''inner'')]] NoCap),
               VPtr (Some (VStruct [VStruct [VInt 1]])))))
     (jsonRequest ''PUT'' ''{Inner: {X: 1}}'' [(''x'', [''2''])])
     (Some (TPtr (TStruct [SField ''Inner'' (TStruct [SField ''X''
         (TBasic KInt NoCap) False True [(''query'', ''x'')]] NoCap)
               False True [(''query'', ''inner'')]] NoCap),
            VPtr (Some (VStruct [VStruct [VInt 0]])))) =
     (Some (TPtr (TStruct [SField ''Inner'' (TStruct [SField ''X''
         (TBasic KInt NoCap) False True [(''query'', ''x'')]] NoCap)
               False True [(''query'', ''inner'')]] NoCap),
            VPtr (Some (VStruct [VStruct [VInt 1]]))), Ok) \<and>
   Bind
     (decodingJSON
        (Some (TPtr (TStruct [SField ''Inner'' (TPtr (TStruct [SField ''X''
            (TBasic KInt NoCap) False True [(''query'', ''x'')]] NoCap))
                  False True []] NoCap),
               VPtr (Some (VStruct [VPtr (Some (VStruct [VInt 1]))])))))
     (jsonRequest ''PUT'' ''{Inner: {X: 1}}'' [(''x'', [''2''])])
     (Some (TPtr (TStruct [SField ''Inner'' (TPtr (TStruct [SField ''X''
         (TBasic KInt NoCap) False True [(''query'', ''x'')]] NoCap))
               False True []] NoCap),
            VPtr (Some (VStruct [VPtr None])))) =
     (Some (TPtr (TStruct [SField ''Inner'' (TPtr (TStruct [SField ''X''
         (TBasic KInt NoCap) False True [(''query'', ''x'')]] NoCap))
               False True []] NoCap),
            VPtr (Some (VStruct [VPtr (Some (VStruct [VInt 1]))]))), Ok) \<and>
   Bind
     (decodingJSON
        (Some (TPtr (TStruct [SField ''inner'' (TStruct [SField ''X''
            (TBasic KInt NoCap) False True [(''query'', ''x'')]] NoCap)
                  True False []] NoCap),
               VPtr (Some (VStruct [VStruct [VInt 1]])))))
     (jsonRequest ''PUT'' ''{X: 1}'' [(''x'', [''2''])])
     (Some (TPtr (TStruct [SField ''inner'' (TStruct [SField ''X''
         (TBasic KInt NoCap) False True [(''query'', ''x'')]] NoCap)
               True False []] NoCap),
            VPtr (Some (VStruct [VStruct [VInt 0]])))) =
     (Some (TPtr (TStruct [SField ''inner'' (TStruct [SField ''X''
         (TBasic KInt NoCap) False True [(''query'', ''x'')]] NoCap)
               True False []] NoCap),
            VPtr (Some (VStruct [VStruct [VInt 1]]))), Ok) \<and>
   Bind
     (decodingJSON
        (Some (TPtr (TStruct [SField ''status'' (TBasic KString NoCap) False False
            [(''query'', ''status'')]] NoCap),
               VPtr (Some (VStruct [VString ''pending''])))))
     (jsonRequest ''PUT'' ''{Status: pending}'' [(''status'', [''done''])])
     (Some (TPtr (TStruct [SField ''status'' (TBasic KString NoCap) False False
         [(''query'', ''status'')]] NoCap),
            VPtr (Some (VStruct [VString []])))) =
     (Some (TPtr (TStruct [SField ''status'' (TBasic KString NoCap) False False
         [(''query'', ''status'')]] NoCap),
            VPtr (Some (VStruct [VString ''pending'']))), Ok) \<and>
   Bind
     (decodingJSON
        (Some (TPtr (TStruct [SField ''Tags''
                  (TSlice (TBasic KString NoCap)
                     (BindUnmarshaler (\<lambda>s v.
                        case v of VSlice xs \<Rightarrow> (VSlice (xs @
                            [VString s]), None) | _ \<Rightarrow> (v, None))))
                  False True [(''query'', ''tags'')]] NoCap),
               VPtr (Some (VStruct [VSlice [VString ''a'']])))))
     (jsonRequest ''PUT'' ''{Tags: [a]}'' [(''tags'', [''b''])])
     (Some (TPtr (TStruct [SField ''Tags''
               (TSlice (TBasic KString NoCap)
                  (BindUnmarshaler (\<lambda>s v.
                     case v of VSlice xs \<Rightarrow> (VSlice (xs @
                         [VString s]), None) | _ \<Rightarrow> (v, None))))
               False True [(''query'', ''tags'')]] NoCap),
            VPtr (Some (VStruct [VSlice []])))) =
     (Some (TPtr (TStruct [SField ''Tags''
               (TSlice (TBasic KString NoCap)
                  (BindUnmarshaler (\<lambda>s v.
                     case v of VSlice xs \<Rightarrow> (VSlice (xs @
                         [VString s]), None) | _ \<Rightarrow> (v, None))))
               False True [(''query'', ''tags'')]] NoCap),
            VPtr (Some (VStruct [VSlice [VString ''a'', VString ''b'']]))), Ok) \<and>
   Bind
     (decodingJSON
        (Some (TPtr (TStruct [SField ''ID'' (TPtr (TBasic KInt NoCap)) True True
            [(''query'', ''id'')]] NoCap),
               VPtr (Some (VStruct [VPtr (Some (VInt 1))])))))
     (jsonRequest ''PUT'' ''{ID: 1}'' [(''id'', [''2''])])
     (Some (TPtr (TStruct [SField ''ID'' (TPtr (TBasic KInt NoCap)) True True
         [(''query'', ''id'')]] NoCap),
            VPtr (Some (VStruct [VPtr None])))) =
     (Some (TPtr (TStruct [SField ''ID'' (TPtr (TBasic KInt NoCap)) True True
         [(''query'', ''id'')]] NoCap),
            VPtr (Some (VStruct [VPtr (Some (VInt 1))]))), Panic ReflectPanic) \<and>
   Bind
     (decodingJSON
        (Some (TPtr (TStruct [SField ''A'' (TBasic KInt NoCap) False True [(''query'', ''a'')],
                  SField ''Status'' (TBasic KString NoCap) False True
                      [(''query'', ''status'')]] NoCap),
               VPtr (Some (VStruct [VInt 0, VString ''pending''])))))
     (jsonRequest ''PUT'' ''{Status: pending}'' [(''a'', [''x'']), (''status'', [''done''])])
     (Some (TPtr (TStruct [SField ''A'' (TBasic KInt NoCap) False True [(''query'', ''a'')],
               SField ''Status'' (TBasic KString NoCap) False True
                   [(''query'', ''status'')]] NoCap),
            VPtr (Some (VStruct [VInt 0, VString []])))) =
     (Some (TPtr (TStruct [SField ''A'' (TBasic KInt NoCap) False True [(''query'', ''a'')],
               SField ''Status'' (TBasic KString NoCap) False True
                   [(''query'', ''status'')]] NoCap),
            VPtr (Some (VStruct [VInt 0, VString ''pending'']))), Err (HTTPError (Some
                (NumError ''ParseInt'' ''x'' ErrSyntax)) 400
              (Error exampleLib (NumError ''ParseInt'' ''x'' ErrSyntax))))"
  by (simp add: dispatch_eval decodingJSON_def jsonRequest_def exampleLib_def walk_eval
      coerce_eval parse_eval StatusBadRequest_def)

end
